theory Spec2Isabelle
  imports Complex_Main "HOL-Library.Monad_Syntax"
begin

section \<open>The calculator server: tools and session routing of \<^verbatim>\<open>src/server.ts\<close>\<close>

text \<open>
  The server registers its tools on every new session and routes HTTP calls on
  \<^verbatim>\<open>/mcp\<close> through a table of transports keyed by session identifier. The two
  variants of \<^verbatim>\<open>server.ts\<close> in the repository agree on everything modelled here.

  Conventions of the embedding.
  \<^item> A JavaScript string is a \<open>string\<close>. Only ASCII characters take part in any
    decision of the code; a character outside ASCII is some bytes above 127 here and some
    UTF-16 units in JavaScript, and both are outside every character class below.
  \<^item> A plain JavaScript object (\<^verbatim>\<open>{}\<close> or an object literal) used as a dictionary is
    the map of its own properties; a property read goes through \<open>get_prop\<close>, which
    falls back to the members every such object inherits from \<^verbatim>\<open>Object.prototype\<close>.
  \<^item> Library and runtime code (\<^verbatim>\<open>eval\<close>, \<^verbatim>\<open>toFixed\<close>, the SDK transport,
    \<^verbatim>\<open>randomUUID\<close>) is not code of the repository. It is modelled as far as the
    language standard fixes it, and an outcome outside the modelled fragment is the value
    \<open>None\<close> or \<open>NotModelled\<close>, never a guess.
\<close>

subsection \<open>Property reads on plain objects\<close>

text \<open>
  \<^verbatim>\<open>obj[key]\<close> on a plain object yields the own property when there is one, else the
  member of \<^verbatim>\<open>Object.prototype\<close> of that name when there is one, else
  \<^verbatim>\<open>undefined\<close>. All inherited members are functions, but \<^verbatim>\<open>__proto__\<close>, which reads
  as the prototype object itself; every one of them is truthy.
\<close>

datatype 'a member = Own 'a | Inherited string | Undefined

definition object_prototype_names :: "string list" where
  "object_prototype_names =
     [''constructor'', ''__defineGetter__'', ''__defineSetter__'', ''hasOwnProperty'',
      ''__lookupGetter__'', ''__lookupSetter__'', ''isPrototypeOf'',
      ''propertyIsEnumerable'', ''toString'', ''valueOf'', ''__proto__'',
      ''toLocaleString'']"

definition get_prop :: "(string \<rightharpoonup> 'a) \<Rightarrow> string \<Rightarrow> 'a member" where
  "get_prop obj k =
     (case obj k of
        Some v \<Rightarrow> Own v
      | None \<Rightarrow> if k \<in> set object_prototype_names then Inherited k else Undefined)"

text \<open>Truthiness of a property read whose own values are objects or functions.\<close>

fun truthy :: "'a member \<Rightarrow> bool" where
  "truthy (Own _) = True"
| "truthy (Inherited _) = True"
| "truthy Undefined = False"

subsection \<open>Decimal digits\<close>

definition digit_char :: "nat \<Rightarrow> char" where
  "digit_char d = ''0123456789'' ! (d mod 10)"

fun show_nat :: "nat \<Rightarrow> string" where
  "show_nat n = (if n < 10 then [digit_char n] else show_nat (n div 10) @ [digit_char (n mod 10)])"

declare show_nat.simps [simp del]

definition show_int :: "int \<Rightarrow> string" where
  "show_int i = (if i < 0 then CHR ''-'' # show_nat (nat (- i)) else show_nat (nat i))"

definition is_digit :: "char \<Rightarrow> bool" where
  "is_digit c = (48 \<le> (of_char c :: nat) \<and> (of_char c :: nat) \<le> 57)"

definition digit_val :: "char \<Rightarrow> nat" where
  "digit_val c = (of_char c :: nat) - 48"

fun nat_of_digits :: "nat \<Rightarrow> string \<Rightarrow> nat" where
  "nat_of_digits acc [] = acc"
| "nat_of_digits acc (c # cs) = nat_of_digits (10 * acc + digit_val c) cs"

subsection \<open>The \<^verbatim>\<open>calculate\<close> tool: sanitising the expression\<close>

text \<open>
  \<^verbatim>\<open>expression.replace(/[^-()*+/0-9.]/g, '')\<close>: the class lists \<^verbatim>\<open>-\<close> (first, hence
  literal), \<^verbatim>\<open>( ) * + /\<close>, the range \<^verbatim>\<open>0-9\<close> and \<^verbatim>\<open>.\<close>; the pattern is the negated
  class, and with the flag \<^verbatim>\<open>g\<close> every match is replaced.
\<close>

definition arithmetic_char :: "char \<Rightarrow> bool" where
  "arithmetic_char c =
     (c = CHR ''-'' \<or> c = CHR ''('' \<or> c = CHR '')'' \<or> c = CHR ''*'' \<or> c = CHR ''+'' \<or>
      c = CHR ''/'' \<or> is_digit c \<or> c = CHR ''.'')"

fun replace_all :: "(char \<Rightarrow> bool) \<Rightarrow> string \<Rightarrow> string \<Rightarrow> string" where
  "replace_all matches r [] = []"
| "replace_all matches r (c # cs) =
     (if matches c then r @ replace_all matches r cs else c # replace_all matches r cs)"

text \<open>
  The characters that can stand in a JavaScript name (of a variable, a function, a
  property or a keyword): letters, digits, \<^verbatim>\<open>$\<close>, \<^verbatim>\<open>_\<close>, the backslash of a Unicode
  escape and every character outside ASCII that the language admits. A name starts
  with one of these that is not a digit.
\<close>

definition identifier_start :: "char \<Rightarrow> bool" where
  "identifier_start c =
     ((65 \<le> (of_char c :: nat) \<and> (of_char c :: nat) \<le> 90) \<or>
      (97 \<le> (of_char c :: nat) \<and> (of_char c :: nat) \<le> 122) \<or>
      c = CHR ''$'' \<or> c = CHR ''_'' \<or> (of_char c :: nat) = 92 \<or> 128 \<le> (of_char c :: nat))"

definition sanitize :: "string \<Rightarrow> string" where
  "sanitize expression = replace_all (\<lambda>c. \<not> arithmetic_char c) [] expression"

subsection \<open>The \<^verbatim>\<open>calculate\<close> tool: \<^verbatim>\<open>eval\<close> on the arithmetic alphabet\<close>

text \<open>
  \<^verbatim>\<open>eval\<close> is the JavaScript engine. On the sanitised alphabet the model covers the
  programs built from decimal literals, the binary operators \<^verbatim>\<open>+ - * /\<close>, unary
  \<^verbatim>\<open>+\<close> and \<^verbatim>\<open>-\<close> and parentheses, with the precedence and associativity of the
  ECMAScript grammar. A number is \<open>Exact i\<close> while it is an integer of magnitude at most
  \<open>2^53\<close>: on these IEEE-754 double arithmetic is exact. Any other number is
  \<open>Inexact\<close>, and the program's result is then not modelled.

  What the sanitised alphabet can also spell, and the model leaves out (\<open>NotModelled\<close>):
  the tokens \<^verbatim>\<open>++\<close>, \<^verbatim>\<open>--\<close> and \<^verbatim>\<open>**\<close>, comments (\<^verbatim>\<open>//\<close>, \<^verbatim>\<open>/*\<close>), regular
  expression literals (a \<^verbatim>\<open>/\<close> where an operand is expected) but the simplest ones,
  which \<open>regexp_literal\<close> covers, call expressions (a \<^verbatim>\<open>(\<close> after an operand), a
  dot that is not part of a literal, and literals with a leading zero (octal or an
  error, by the mode). A syntax error in the covered grammar is \<open>Threw\<close>:
  \<^verbatim>\<open>eval\<close> raises SyntaxError before anything is evaluated.
\<close>

datatype num = Exact int | Inexact

datatype token = TNum num | TPlus | TMinus | TStar | TSlash | TLParen | TRParen

datatype numacc = Idle | InInt string | InFrac string string

definition exact :: "int \<Rightarrow> num" where
  "exact i = (if \<bar>i\<bar> \<le> 2 ^ 53 then Exact i else Inexact)"

definition leading_zero :: "string \<Rightarrow> bool" where
  "leading_zero ds = (case ds of c # _ # _ \<Rightarrow> c = CHR ''0'' | _ \<Rightarrow> False)"

text \<open>The literal read so far, as tokens; \<open>None\<close> when it is outside the model.\<close>

fun flush :: "numacc \<Rightarrow> token list option" where
  "flush Idle = Some []"
| "flush (InInt ds) =
     (if leading_zero ds then None else Some [TNum (exact (int (nat_of_digits 0 ds)))])"
| "flush (InFrac ds fs) =
     (if ds = [] \<and> fs = [] then None
      else if leading_zero ds then None
      else if list_all (\<lambda>c. c = CHR ''0'') fs then Some [TNum (exact (int (nat_of_digits 0 ds)))]
      else Some [TNum Inexact])"

definition punctuator :: "char \<Rightarrow> token option" where
  "punctuator c =
     (if c = CHR ''+'' then Some TPlus
      else if c = CHR ''-'' then Some TMinus
      else if c = CHR ''*'' then Some TStar
      else if c = CHR ''/'' then Some TSlash
      else if c = CHR ''('' then Some TLParen
      else if c = CHR '')'' then Some TRParen
      else None)"

definition append_opt :: "'a list option \<Rightarrow> 'a list option \<Rightarrow> 'a list option" where
  "append_opt a b = (case a of None \<Rightarrow> None | Some xs \<Rightarrow> map_option (\<lambda>ys. xs @ ys) b)"

fun lex :: "numacc \<Rightarrow> string \<Rightarrow> token list option" where
  "lex acc [] = flush acc"
| "lex acc (c # cs) =
     (if is_digit c then
        (case acc of
           Idle \<Rightarrow> lex (InInt [c]) cs
         | InInt ds \<Rightarrow> lex (InInt (ds @ [c])) cs
         | InFrac ds fs \<Rightarrow> lex (InFrac ds (fs @ [c])) cs)
      else if c = CHR ''.'' then
        (case acc of
           Idle \<Rightarrow> lex (InFrac [] []) cs
         | InInt ds \<Rightarrow> lex (InFrac ds []) cs
         | InFrac ds fs \<Rightarrow> append_opt (flush acc) (lex (InFrac [] []) cs))
      else
        (case punctuator c of
           None \<Rightarrow> None
         | Some t \<Rightarrow> append_opt (flush acc) (append_opt (Some [t]) (lex Idle cs))))"

text \<open>
  Adjacent characters that the engine reads as one token or as the start of a comment.
  The sanitised string has no white space, so adjacent tokens are adjacent characters.
\<close>

definition joined :: "token \<Rightarrow> token \<Rightarrow> bool" where
  "joined a b =
     (a = TPlus \<and> b = TPlus \<or> a = TMinus \<and> b = TMinus \<or> a = TStar \<and> b = TStar \<or>
      a = TSlash \<and> b = TSlash \<or> a = TSlash \<and> b = TStar)"

fun unmodelled_pair :: "token list \<Rightarrow> bool" where
  "unmodelled_pair (a # b # ts) = (joined a b \<or> unmodelled_pair (b # ts))"
| "unmodelled_pair [a] = False"
| "unmodelled_pair [] = False"

datatype oper = UPlus | UMinus | Add | Sub | Mul | Div | Paren

fun prec :: "oper \<Rightarrow> nat" where
  "prec Paren = 0"
| "prec Add = 1"
| "prec Sub = 1"
| "prec Mul = 2"
| "prec Div = 2"
| "prec UPlus = 3"
| "prec UMinus = 3"

fun arith :: "oper \<Rightarrow> num \<Rightarrow> num \<Rightarrow> num" where
  "arith Add (Exact a) (Exact b) = exact (a + b)"
| "arith Sub (Exact a) (Exact b) = exact (a - b)"
| "arith Mul (Exact a) (Exact b) = exact (a * b)"
| "arith Div (Exact a) (Exact b) = (if b \<noteq> 0 \<and> b dvd a then exact (a div b) else Inexact)"
| "arith _ _ _ = Inexact"

fun negate :: "num \<Rightarrow> num" where
  "negate (Exact a) = Exact (- a)"
| "negate Inexact = Inexact"

text \<open>One operator applied to the operand stack; \<open>None\<close> when operands are missing.\<close>

fun apply_oper :: "oper \<Rightarrow> num list \<Rightarrow> num list option" where
  "apply_oper Paren vs = None"
| "apply_oper UPlus vs = (case vs of a # vs' \<Rightarrow> Some (a # vs') | [] \<Rightarrow> None)"
| "apply_oper UMinus vs = (case vs of a # vs' \<Rightarrow> Some (negate a # vs') | [] \<Rightarrow> None)"
| "apply_oper bin vs = (case vs of b # a # vs' \<Rightarrow> Some (arith bin a b # vs') | _ \<Rightarrow> None)"

text \<open>Pops and applies the operators of precedence at least \<open>p\<close>, down to a parenthesis.\<close>

fun reduce :: "nat \<Rightarrow> oper list \<Rightarrow> num list \<Rightarrow> (oper list \<times> num list) option" where
  "reduce p [] vs = Some ([], vs)"
| "reduce p (x # os) vs =
     (if x \<noteq> Paren \<and> p \<le> prec x then
        (case apply_oper x vs of None \<Rightarrow> None | Some vs' \<Rightarrow> reduce p os vs')
      else Some (x # os, vs))"

datatype js_value = JUndefined | JNumber int | JRegExp string

datatype outcome = Completed js_value | Threw | NotModelled

definition binary_of :: "token \<Rightarrow> oper" where
  "binary_of t = (case t of TPlus \<Rightarrow> Add | TMinus \<Rightarrow> Sub | TStar \<Rightarrow> Mul | _ \<Rightarrow> Div)"

text \<open>
  The expression parser, evaluating as it reduces. The flag says whether an operand is
  expected next.
\<close>

fun run :: "bool \<Rightarrow> oper list \<Rightarrow> num list \<Rightarrow> token list \<Rightarrow> outcome" where
  "run True os vs (TNum n # ts) = run False os (n # vs) ts"
| "run True os vs (TPlus # ts) = run True (UPlus # os) vs ts"
| "run True os vs (TMinus # ts) = run True (UMinus # os) vs ts"
| "run True os vs (TLParen # ts) = run True (Paren # os) vs ts"
| "run True os vs (TSlash # ts) = NotModelled"
| "run True os vs (TStar # ts) = Threw"
| "run True os vs (TRParen # ts) = Threw"
| "run True os vs [] = Threw"
| "run False os vs (TNum n # ts) = Threw"
| "run False os vs (TLParen # ts) = NotModelled"
| "run False os vs (TRParen # ts) =
     (case reduce 1 os vs of
        Some (Paren # os', vs') \<Rightarrow> run False os' vs' ts
      | _ \<Rightarrow> Threw)"
| "run False os vs (t # ts) =
     (case reduce (prec (binary_of t)) os vs of
        Some (os', vs') \<Rightarrow> run True (binary_of t # os') vs' ts
      | None \<Rightarrow> Threw)"
| "run False os vs [] =
     (case reduce 1 os vs of
        Some ([], [Exact i]) \<Rightarrow> Completed (JNumber i)
      | Some ([], [Inexact]) \<Rightarrow> NotModelled
      | _ \<Rightarrow> Threw)"

text \<open>
  A program that is one regular expression literal. At the start of a program a
  \<^verbatim>\<open>/\<close> opens a literal that runs to the next \<^verbatim>\<open>/\<close>. Of these the model covers the
  literals whose body is decimal digits only (always a valid pattern), with nothing
  after the closing \<^verbatim>\<open>/\<close>; the value is a RegExp object with that body as source.
\<close>

definition regexp_literal :: "string \<Rightarrow> string option" where
  "regexp_literal src =
     (case src of
        [] \<Rightarrow> None
      | c # cs \<Rightarrow>
          if c = CHR ''/'' \<and> 2 \<le> length cs \<and> last cs = CHR ''/'' \<and> list_all is_digit (butlast cs)
          then Some (butlast cs) else None)"

definition js_eval :: "string \<Rightarrow> outcome" where
  "js_eval src =
     (case regexp_literal src of
        Some pattern \<Rightarrow> Completed (JRegExp pattern)
      | None \<Rightarrow>
          (case lex Idle src of
             None \<Rightarrow> NotModelled
           | Some ts \<Rightarrow>
               if unmodelled_pair ts then NotModelled
               else if ts = [] then Completed JUndefined
               else run True [] [] ts))"

text \<open>The template literal's conversion of the result to a string.\<close>

fun to_string :: "js_value \<Rightarrow> string" where
  "to_string JUndefined = ''undefined''"
| "to_string (JNumber i) = show_int i"
| "to_string (JRegExp pattern) = ''/'' @ pattern @ ''/''"

definition could_not_evaluate :: "string \<Rightarrow> string" where
  "could_not_evaluate expression =
     ''Error: Could not evaluate expression '' @ [CHR 0x27] @ expression @ [CHR 0x27]"

text \<open>
  The handler of \<^verbatim>\<open>calculate\<close>: the text of the content it returns, \<open>None\<close> when the
  evaluation is outside the modelled fragment of \<^verbatim>\<open>eval\<close>.
\<close>

definition calculate :: "string \<Rightarrow> string option" where
  "calculate expression =
     (case js_eval (replace_all (\<lambda>c. \<not> arithmetic_char c) [] expression) of
        Completed result \<Rightarrow> Some (''Result: '' @ to_string result)
      | Threw \<Rightarrow> Some (could_not_evaluate expression)
      | NotModelled \<Rightarrow> None)"

subsection \<open>The \<^verbatim>\<open>convert\<close> tool\<close>

text \<open>
  A JavaScript number is an IEEE-754 double. A finite double is modelled by the
  rational it denotes, with one zero for both signed zeros (the conversions do not
  divide by a variable, and \<^verbatim>\<open>toFixed\<close> and the conversion to a string print both
  zeros alike). Every arithmetic operation yields the exact result rounded to the
  nearest double, a tie going to the even significand: the significand has 53 bits, the
  least exponent of a unit in the last place is \<open>-1074\<close>, and a rounded magnitude of
  \<open>2^1024\<close> or more overflows to an infinity, which is not modelled (\<open>None\<close>).
\<close>

fun bitlen_nat :: "nat \<Rightarrow> nat" where
  "bitlen_nat n = (if n = 0 then 0 else Suc (bitlen_nat (n div 2)))"

declare bitlen_nat.simps [simp del]

text \<open>The integer part of the binary logarithm of \<open>\<bar>x\<bar>\<close>, for \<open>x \<noteq> 0\<close>.\<close>

definition ilog2 :: "rat \<Rightarrow> int" where
  "ilog2 x =
     (if 1 \<le> \<bar>x\<bar> then int (bitlen_nat (nat \<lfloor>\<bar>x\<bar>\<rfloor>)) - 1
      else - int (bitlen_nat (nat (\<lceil>1 / \<bar>x\<bar>\<rceil> - 1))))"

definition pow2 :: "int \<Rightarrow> rat" where
  "pow2 e = (if 0 \<le> e then 2 ^ nat e else 1 / 2 ^ nat (- e))"

definition round_half_even :: "rat \<Rightarrow> int" where
  "round_half_even y =
     (if y - of_int \<lfloor>y\<rfloor> < 1 / 2 then \<lfloor>y\<rfloor>
      else if 1 / 2 < y - of_int \<lfloor>y\<rfloor> then \<lfloor>y\<rfloor> + 1
      else if even \<lfloor>y\<rfloor> then \<lfloor>y\<rfloor>
      else \<lfloor>y\<rfloor> + 1)"

definition round_double :: "rat \<Rightarrow> rat option" where
  "round_double x =
     (if x = 0 then Some 0
      else
        (let e = max (ilog2 x - 52) (- 1074);
             r = of_int (round_half_even (\<bar>x\<bar> / pow2 e)) * pow2 e
         in if 2 ^ 1024 \<le> r then None else Some (sgn x * r)))"

text \<open>A double is a rational that rounding leaves as it is.\<close>

definition is_double :: "rat \<Rightarrow> bool" where
  "is_double x = (round_double x = Some x)"

text \<open>
  The operators \<^verbatim>\<open>*\<close>, \<^verbatim>\<open>/\<close>, \<^verbatim>\<open>+\<close> and \<^verbatim>\<open>-\<close> on finite doubles, and the value of
  a decimal literal. A division by zero yields an infinity or NaN and is not modelled.
\<close>

definition js_mul :: "rat \<Rightarrow> rat \<Rightarrow> rat option" where
  "js_mul a b = round_double (a * b)"

definition js_div :: "rat \<Rightarrow> rat \<Rightarrow> rat option" where
  "js_div a b = (if b = 0 then None else round_double (a / b))"

definition js_add :: "rat \<Rightarrow> rat \<Rightarrow> rat option" where
  "js_add a b = round_double (a + b)"

definition js_sub :: "rat \<Rightarrow> rat \<Rightarrow> rat option" where
  "js_sub a b = round_double (a - b)"

definition js_literal :: "rat \<Rightarrow> rat option" where
  "js_literal q = round_double q"

text \<open>
  \<^verbatim>\<open>Number.prototype.toFixed(f)\<close>, by the language standard: for \<open>x < 0\<close> the sign
  is written and \<open>x\<close> negated; for \<open>x\<close> of magnitude \<open>10^21\<close> or more the result is the
  plain conversion to a string; else \<open>n\<close> is the integer with \<open>n / 10^f\<close> nearest to
  \<open>x\<close>, the larger one of two, its digits are padded with zeros to \<open>f + 1\<close> places and
  the point goes before the last \<open>f\<close>.
\<close>

datatype part = Str string | NumberToString rat

definition pad_left :: "nat \<Rightarrow> string \<Rightarrow> string" where
  "pad_left k m = replicate (k - length m) (CHR ''0'') @ m"

definition fixed_digits :: "nat \<Rightarrow> rat \<Rightarrow> string" where
  "fixed_digits f y =
     (let n = nat \<lfloor>y * 10 ^ f + 1 / 2\<rfloor>;
          m = show_nat n
      in if f \<noteq> 0 then
           (let p = pad_left (f + 1) m
            in take (length p - f) p @ ''.'' @ drop (length p - f) p)
         else m)"

definition toFixed :: "nat \<Rightarrow> rat \<Rightarrow> part" where
  "toFixed f x =
     (if 10 ^ 21 \<le> \<bar>x\<bar> then NumberToString x
      else Str ((if x < 0 then ''-'' else []) @ fixed_digits f \<bar>x\<bar>))"

text \<open>
  The table of the handler, an object literal of object literals. Each function is the
  source's expression, operator by operator, left to right: \<^verbatim>\<open>c * 9/5 + 32\<close> is
  \<^verbatim>\<open>((c * 9) / 5) + 32\<close> and \<^verbatim>\<open>(f - 32) * 5/9\<close> is \<^verbatim>\<open>((f - 32) * 5) / 9\<close>.
\<close>

definition conversions :: "string \<rightharpoonup> (string \<rightharpoonup> (rat \<Rightarrow> rat option))" where
  "conversions =
     [''celsius'' \<mapsto> [''fahrenheit'' \<mapsto>
        (\<lambda>c. do { a \<leftarrow> js_mul c 9; b \<leftarrow> js_div a 5; js_add b 32 })],
      ''fahrenheit'' \<mapsto> [''celsius'' \<mapsto>
        (\<lambda>f. do { a \<leftarrow> js_sub f 32; b \<leftarrow> js_mul a 5; js_div b 9 })],
      ''kilometers'' \<mapsto> [''miles'' \<mapsto>
        (\<lambda>km. do { k \<leftarrow> js_literal (621371 / 1000000); js_mul km k })],
      ''miles'' \<mapsto> [''kilometers'' \<mapsto>
        (\<lambda>mi. do { k \<leftarrow> js_literal (160934 / 100000); js_mul mi k })],
      ''kilograms'' \<mapsto> [''pounds'' \<mapsto>
        (\<lambda>kg. do { k \<leftarrow> js_literal (220462 / 100000); js_mul kg k })],
      ''pounds'' \<mapsto> [''kilograms'' \<mapsto>
        (\<lambda>lb. do { k \<leftarrow> js_literal (453592 / 1000000); js_mul lb k })]]"

text \<open>
  \<^verbatim>\<open>conversions[fromUnit][toUnit](value)\<close> when the member read is inherited. For
  \<^verbatim>\<open>constructor\<close> the member is the function \<^verbatim>\<open>Object\<close>: \<^verbatim>\<open>Object(v)\<close> wraps the
  number \<open>v\<close>, and \<^verbatim>\<open>Number(...)\<close> unwraps it again. The other inherited members are
  not modelled.
\<close>

definition call_inherited :: "string \<Rightarrow> rat \<Rightarrow> rat option" where
  "call_inherited m v = (if m = ''constructor'' then Some v else None)"

definition converted_text :: "rat \<Rightarrow> string \<Rightarrow> part \<Rightarrow> string \<Rightarrow> part list" where
  "converted_text v fromUnit formatted toUnit =
     [NumberToString v, Str ('' '' @ fromUnit @ '' = ''), formatted, Str ('' '' @ toUnit)]"

definition not_supported_text :: "string \<Rightarrow> string \<Rightarrow> part list" where
  "not_supported_text fromUnit toUnit =
     [Str (''Error: Conversion from '' @ fromUnit @ '' to '' @ toUnit @ '' is not supported.'')]"

text \<open>
  The handler of \<^verbatim>\<open>convert\<close>, on a finite double \<open>v\<close>: the parts of the text it
  returns, \<open>None\<close> where the members read or the result (an overflow) are outside the
  model. The condition
  \<^verbatim>\<open>conversions[fromUnit] && conversions[fromUnit][toUnit]\<close> is two property reads.
\<close>

definition convert :: "rat \<Rightarrow> string \<Rightarrow> string \<Rightarrow> part list option" where
  "convert v fromUnit toUnit =
     (case get_prop conversions fromUnit of
        Undefined \<Rightarrow> Some (not_supported_text fromUnit toUnit)
      | Inherited _ \<Rightarrow> None
      | Own units \<Rightarrow>
          (case get_prop units toUnit of
             Undefined \<Rightarrow> Some (not_supported_text fromUnit toUnit)
           | Own f \<Rightarrow>
               map_option (\<lambda>r. converted_text v fromUnit (toFixed 4 r) toUnit) (f v)
           | Inherited m \<Rightarrow>
               map_option (\<lambda>r. converted_text v fromUnit (toFixed 4 r) toUnit)
                 (call_inherited m v)))"

text \<open>
  The text of the parts. A number that is an integer below \<open>10^21\<close> is written in
  decimal digits; the shortest-digits rendering of other doubles is not modelled.
\<close>

definition number_to_string :: "rat \<Rightarrow> string option" where
  "number_to_string q =
     (if q = of_int \<lfloor>q\<rfloor> \<and> \<bar>q\<bar> < 10 ^ 21 then Some (show_int \<lfloor>q\<rfloor>) else None)"

fun render :: "part list \<Rightarrow> string option" where
  "render [] = Some []"
| "render (Str s # ps) = map_option (\<lambda>r. s @ r) (render ps)"
| "render (NumberToString q # ps) =
     (case number_to_string q of
        None \<Rightarrow> None
      | Some s \<Rightarrow> map_option (\<lambda>r. s @ r) (render ps))"

subsection \<open>The session store and the routes on \<^verbatim>\<open>/mcp\<close>\<close>

text \<open>
  \<^verbatim>\<open>const transports: { [sessionId: string]: StreamableHTTPServerTransport } = {}\<close> is a
  plain object: its own properties are the registered sessions. A transport object is
  modelled by its identity, the number of transports constructed before it; its field
  \<^verbatim>\<open>sessionId\<close> is kept in \<open>session_of\<close>.
\<close>

type_synonym transport = nat

record server =
  transports :: "string \<rightharpoonup> transport"
  session_of :: "transport \<rightharpoonup> string"
  constructed :: nat

definition init_server :: server where
  "init_server = \<lparr>transports = Map.empty, session_of = Map.empty, constructed = 0\<rparr>"

text \<open>
  \<^verbatim>\<open>obj[k] = v\<close> creates or overwrites the own property \<open>k\<close>, for every key but
  \<^verbatim>\<open>__proto__\<close>: that assignment goes to the inherited setter and leaves the own
  properties as they are (the change of prototype it makes is not modelled; no
  identifier of \<^verbatim>\<open>randomUUID\<close> is that key). \<^verbatim>\<open>delete obj[k]\<close> removes the own
  property \<open>k\<close> and does nothing when there is none.
\<close>

definition set_prop :: "(string \<rightharpoonup> 'a) \<Rightarrow> string \<Rightarrow> 'a \<Rightarrow> (string \<rightharpoonup> 'a)" where
  "set_prop obj k v = (if k = ''__proto__'' then obj else obj(k \<mapsto> v))"

definition delete_prop :: "(string \<rightharpoonup> 'a) \<Rightarrow> string \<Rightarrow> (string \<rightharpoonup> 'a)" where
  "delete_prop obj k = obj(k := None)"

text \<open>
  The identifiers of \<^verbatim>\<open>randomUUID()\<close>: 36 characters, hyphens at the positions 8, 13,
  18 and 23, lower-case hexadecimal digits elsewhere.
\<close>

definition is_hex :: "char \<Rightarrow> bool" where
  "is_hex c = (is_digit c \<or> (97 \<le> (of_char c :: nat) \<and> (of_char c :: nat) \<le> 102))"

fun uuid_shape :: "nat \<Rightarrow> string \<Rightarrow> bool" where
  "uuid_shape i [] = (i = 36)"
| "uuid_shape i (c # cs) =
     ((if i = 8 \<or> i = 13 \<or> i = 18 \<or> i = 23 then c = CHR ''-'' else is_hex c) \<and>
      uuid_shape (Suc i) cs)"

definition is_uuid :: "string \<Rightarrow> bool" where
  "is_uuid s = uuid_shape 0 s"

text \<open>
  The two callbacks the route installs on a transport it constructs; \<open>t\<close> is the
  transport the closures capture.
  \<^verbatim>\<open>onsessioninitialized: (sessionId) => { transports[sessionId] = transport; }\<close> and
  \<^verbatim>\<open>transport.onclose = () => { if (transport.sessionId) { delete transports[transport.sessionId]; } }\<close>.
\<close>

definition onsessioninitialized :: "transport \<Rightarrow> string \<Rightarrow> server \<Rightarrow> server" where
  "onsessioninitialized t sessionId s = s\<lparr>transports := set_prop (transports s) sessionId t\<rparr>"

definition onclose :: "transport \<Rightarrow> server \<Rightarrow> server" where
  "onclose t s =
     (case session_of s t of
        None \<Rightarrow> s
      | Some sessionId \<Rightarrow>
          if sessionId \<noteq> [] then s\<lparr>transports := delete_prop (transports s) sessionId\<rparr>
          else s)"

text \<open>
  The SDK transport is a library. What it does with a request it is handed is a
  parameter of the routes: the callbacks it fires while it handles the request, in
  order. On initialising a session it calls the \<^verbatim>\<open>sessionIdGenerator\<close> it was
  constructed with (here \<^verbatim>\<open>() => randomUUID()\<close>, whose result is the parameter
  \<open>uuid\<close>), stores the result in its field \<^verbatim>\<open>sessionId\<close> and passes it to
  \<^verbatim>\<open>onsessioninitialized\<close>; on closing it calls \<^verbatim>\<open>onclose\<close>.
\<close>

datatype sdk_event = SessionInitialized | Closed

fun sdk_fire :: "string \<Rightarrow> transport \<Rightarrow> sdk_event \<Rightarrow> server \<Rightarrow> server" where
  "sdk_fire uuid t SessionInitialized s =
     onsessioninitialized t uuid (s\<lparr>session_of := (session_of s)(t \<mapsto> uuid)\<rparr>)"
| "sdk_fire uuid t Closed s = onclose t s"

definition sdk_handle :: "string \<Rightarrow> transport \<Rightarrow> sdk_event list \<Rightarrow> server \<Rightarrow> server" where
  "sdk_handle uuid t events s = fold (sdk_fire uuid t) events s"

text \<open>
  A request: the header \<^verbatim>\<open>mcp-session-id\<close> (\<open>None\<close> when absent, and possibly the
  empty string) and the parsed body, classified by the SDK's \<^verbatim>\<open>isInitializeRequest\<close>.
\<close>

datatype body = InitializeRequest string | OtherMessage string

fun isInitializeRequest :: "body \<Rightarrow> bool" where
  "isInitializeRequest (InitializeRequest _) = True"
| "isInitializeRequest (OtherMessage _) = False"

record request =
  mcp_session_id :: "string option"
  body :: body

text \<open>
  What a route does with the response object: it hands request and response to a
  transport (with the body, on POST), or answers itself, or the call of
  \<^verbatim>\<open>handleRequest\<close> on a value that has no such method raises a TypeError that the
  route does not catch.
\<close>

datatype response =
    Delegated transport "body option"
  | StatusJson nat int string
  | StatusText nat string
  | UncaughtTypeError

text \<open>JavaScript truthiness of \<^verbatim>\<open>sessionId\<close>, a string or \<^verbatim>\<open>undefined\<close>.\<close>

fun truthy_id :: "string option \<Rightarrow> bool" where
  "truthy_id None = False"
| "truthy_id (Some sid) = (sid \<noteq> [])"

text \<open>The value of \<^verbatim>\<open>sessionId && transports[sessionId]\<close>, as far as its truthiness goes.\<close>

fun session_member :: "server \<Rightarrow> string option \<Rightarrow> transport member" where
  "session_member s None = Undefined"
| "session_member s (Some sid) = (if sid = [] then Undefined else get_prop (transports s) sid)"

text \<open>\<^verbatim>\<open>transport.handleRequest(...)\<close> on the value read from the store.\<close>

fun handleRequest ::
  "string \<Rightarrow> sdk_event list \<Rightarrow> transport member \<Rightarrow> body option \<Rightarrow> server \<Rightarrow> response \<times> server"
where
  "handleRequest uuid events (Own t) b s = (Delegated t b, sdk_handle uuid t events s)"
| "handleRequest uuid events (Inherited m) b s = (UncaughtTypeError, s)"
| "handleRequest uuid events Undefined b s = (UncaughtTypeError, s)"

definition post_mcp :: "string \<Rightarrow> sdk_event list \<Rightarrow> request \<Rightarrow> server \<Rightarrow> response \<times> server" where
  "post_mcp uuid events req s =
     (let sessionId = mcp_session_id req in
      if truthy (session_member s sessionId) then
        handleRequest uuid events (session_member s sessionId) (Some (body req)) s
      else if \<not> truthy_id sessionId \<and> isInitializeRequest (body req) then
        (let t = constructed s;
             s' = s\<lparr>constructed := Suc (constructed s)\<rparr>
         in handleRequest uuid events (Own t) (Some (body req)) s')
      else
        (StatusJson 400 (- 32000) ''Bad Request: No valid session ID provided'', s))"

definition handleSessionRequest ::
  "string \<Rightarrow> sdk_event list \<Rightarrow> request \<Rightarrow> server \<Rightarrow> response \<times> server"
where
  "handleSessionRequest uuid events req s =
     (let sessionId = mcp_session_id req in
      if \<not> truthy_id sessionId \<or> \<not> truthy (session_member s sessionId) then
        (StatusText 400 ''Invalid or missing session ID'', s)
      else handleRequest uuid events (session_member s sessionId) None s)"

text \<open>
  The states the server can be in: every registered identifier came from
  \<^verbatim>\<open>randomUUID\<close>, and every registered transport was constructed before.
\<close>

definition wf_server :: "server \<Rightarrow> bool" where
  "wf_server s = (\<forall>k t. transports s k = Some t \<longrightarrow> is_uuid k \<and> t < constructed s)"

subsection \<open>Example data\<close>

definition example_uuid :: string where
  "example_uuid = ''123e4567-e89b-42d3-a456-426614174000''"

definition initialize_call :: request where
  "initialize_call = \<lparr>mcp_session_id = None, body = InitializeRequest ''initialize''\<rparr>"

definition one_session :: server where
  "one_session = snd (post_mcp example_uuid [SessionInitialized] initialize_call init_server)"

definition empty_header_call :: request where
  "empty_header_call = \<lparr>mcp_session_id = Some [], body = InitializeRequest ''initialize''\<rparr>"

definition unknown_name_call :: request where
  "unknown_name_call = \<lparr>mcp_session_id = Some ''constructor'', body = OtherMessage []\<rparr>"

section \<open>The tools\<close>

subsection \<open>\<^verbatim>\<open>calculate\<close>\<close>

lemma sanitize_filter: "sanitize e = filter arithmetic_char e"
  by (induction e) (simp_all add: sanitize_def)

lemma sanitize_idem: "sanitize (sanitize e) = sanitize e"
  by (simp add: sanitize_filter)

lemma calculate_of_sanitized:
  "calculate e =
     (if js_eval (sanitize e) = Threw then Some (could_not_evaluate e)
      else calculate (sanitize e))"
proof -
  have eq: "replace_all (\<lambda>c. \<not> arithmetic_char c) [] e = sanitize e"
    by (simp add: sanitize_def)
  have eq2: "replace_all (\<lambda>c. \<not> arithmetic_char c) [] (sanitize e) = sanitize e"
    using sanitize_idem [of e] by (simp add: sanitize_def)
  show ?thesis
    unfolding calculate_def eq eq2 by (cases "js_eval (sanitize e)") simp_all
qed

lemma arithmetic_char_not_identifier_start: "arithmetic_char c \<Longrightarrow> \<not> identifier_start c"
  by (auto simp: arithmetic_char_def identifier_start_def is_digit_def)

text \<open>
  C6, as the code has it. For every input of \<^verbatim>\<open>calculate\<close>, the string handed to
  \<^verbatim>\<open>eval\<close> is the input with every character outside \<^verbatim>\<open>- ( ) * + / 0-9 .\<close> removed
  and the others kept in order. It consists of characters of that set only, none of
  which can start a name, so the program names no variable, function, property or
  keyword. The tool either answers with its error text, when the evaluation throws, or
  answers as it does on the sanitised remainder alone. For \<^verbatim>\<open>import os\<close> the
  remainder is empty, and the empty program evaluates to \<^verbatim>\<open>undefined\<close>.
\<close>

theorem calculate_evaluates_sanitized_remainder:
  "sanitize e = filter arithmetic_char e \<and>
   list_all arithmetic_char (sanitize e) \<and>
   list_all (\<lambda>c. \<not> identifier_start c) (sanitize e) \<and>
   calculate e =
     (if js_eval (sanitize e) = Threw then Some (could_not_evaluate e)
      else calculate (sanitize e)) \<and>
   sanitize ''import os'' = [] \<and>
   calculate ''import os'' = Some ''Result: undefined''"
proof -
  have a: "sanitize e = filter arithmetic_char e" by (rule sanitize_filter)
  have b: "list_all arithmetic_char (sanitize e)"
    by (simp add: sanitize_filter list_all_iff)
  have i: "list_all (\<lambda>c. \<not> identifier_start c) (sanitize e)"
    by (simp add: sanitize_filter list_all_iff arithmetic_char_not_identifier_start)
  have c: "sanitize ''import os'' = []"
    by (simp add: sanitize_def arithmetic_char_def is_digit_def)
  have d: "calculate ''import os'' = Some ''Result: undefined''"
    by code_simp
  show ?thesis
    unfolding calculate_of_sanitized [of e, symmetric]
    using a b i c d by simp
qed

text \<open>
  C6 as stated fails in its conclusion that nothing beyond arithmetic is evaluated: the
  input \<^verbatim>\<open>/1/\<close> passes the filter unchanged, the program is a regular expression
  literal and not an arithmetic expression, and the tool answers with the text of the
  RegExp object it evaluates to.
\<close>

theorem calculate_regexp_literal:
  "sanitize ''/1/'' = ''/1/'' \<and>
   js_eval (sanitize ''/1/'') = Completed (JRegExp ''1'') \<and>
   calculate ''/1/'' = Some ''Result: /1/''"
  by code_simp

text \<open>
  C7. \<^verbatim>\<open>calculate\<close> on \<^verbatim>\<open>2 + 2 * 3\<close> answers \<^verbatim>\<open>Result: 8\<close>: the product is taken
  before the sum.
\<close>

theorem calculate_precedence:
  "calculate ''2 + 2 * 3'' = Some ''Result: 8'' \<and>
   js_eval (sanitize ''2 + 2 * 3'') = Completed (JNumber 8)"
  by code_simp

subsection \<open>Double arithmetic\<close>

lemma round_half_even_unique:
  assumes "of_int m - 1 / 2 < y" and "y < of_int m + 1 / 2"
  shows "round_half_even y = m"
proof -
  have f: "of_int \<lfloor>y\<rfloor> \<le> y" "y < of_int \<lfloor>y\<rfloor> + 1" by linarith+
  from assms f have "(of_int m :: rat) < of_int \<lfloor>y\<rfloor> + 3 / 2" "(of_int \<lfloor>y\<rfloor> :: rat) < of_int m + 1 / 2"
    by linarith+
  then have "(of_int m :: rat) < of_int (\<lfloor>y\<rfloor> + 2)" "(of_int \<lfloor>y\<rfloor> :: rat) < of_int (m + 1)"
    by simp_all
  then have "m < \<lfloor>y\<rfloor> + 2" "\<lfloor>y\<rfloor> < m + 1" by (simp_all only: of_int_less_iff)
  then consider "\<lfloor>y\<rfloor> = m" | "\<lfloor>y\<rfloor> = m - 1" by linarith
  then show ?thesis
  proof cases
    case 1
    with assms show ?thesis by (simp add: round_half_even_def)
  next
    case 2
    with assms show ?thesis by (simp add: round_half_even_def)
  qed
qed

lemma round_double_at:
  assumes "x \<noteq> 0" and "ilog2 x = k" and "- 1074 \<le> k - 52"
    and "of_int m - 1 / 2 < \<bar>x\<bar> / pow2 (k - 52)"
    and "\<bar>x\<bar> / pow2 (k - 52) < of_int m + 1 / 2"
    and "of_int m * pow2 (k - 52) < 2 ^ 1024"
  shows "round_double x = Some (sgn x * (of_int m * pow2 (k - 52)))"
proof -
  from assms(3) have e: "max (k - 52) (- 1074) = k - 52" by simp
  from assms(4,5) have r: "round_half_even (\<bar>x\<bar> / pow2 (k - 52)) = m"
    by (rule round_half_even_unique)
  from assms(1,6) show ?thesis
    by (simp add: round_double_def assms(2) e r Let_def)
qed

lemma floor_fraction:
  "\<lfloor>(numeral a :: rat) / numeral b\<rfloor> = numeral a div numeral b"
  using floor_divide_of_int_eq [of "numeral a" "numeral b", where ?'a = rat] by simp

lemma ceiling_fraction:
  "\<lceil>(numeral a :: rat) / numeral b\<rceil> = - (- numeral a div numeral b)"
  using floor_divide_of_int_eq [of "- numeral a" "numeral b", where ?'a = rat]
  by (simp add: ceiling_def)

lemma bitlen_nat_bounds:
  "0 < n \<Longrightarrow> 2 ^ (bitlen_nat n - 1) \<le> n \<and> n < 2 ^ bitlen_nat n"
proof (induction n rule: bitlen_nat.induct)
  case (1 n)
  show ?case
  proof (cases "n div 2 = 0")
    case True
    with "1.prems" have "n = 1" by (simp add: div_eq_0_iff) 
    then show ?thesis by (simp add: bitlen_nat.simps)
  next
    case False
    with "1.prems" "1.IH" have ih: "2 ^ (bitlen_nat (n div 2) - 1) \<le> n div 2"
      "n div 2 < 2 ^ bitlen_nat (n div 2)" by simp_all
    from False have pos: "0 < bitlen_nat (n div 2)" by (simp add: bitlen_nat.simps)
    from "1.prems" have b: "bitlen_nat n = Suc (bitlen_nat (n div 2))"
      by (simp add: bitlen_nat.simps)
    from pos have p: "(2::nat) ^ bitlen_nat (n div 2) = 2 * 2 ^ (bitlen_nat (n div 2) - 1)"
      by (cases "bitlen_nat (n div 2)") simp_all
    from ih(1) have "2 * 2 ^ (bitlen_nat (n div 2) - 1) \<le> n" by linarith
    moreover from ih(2) have "n < 2 * 2 ^ bitlen_nat (n div 2)" by linarith
    ultimately show ?thesis by (simp add: b p)
  qed
qed

lemma round_double_of_int:
  assumes "\<bar>n\<bar> < 2 ^ 53"
  shows "round_double (of_int n) = Some (of_int n)"
proof (cases "n = 0")
  case True
  then show ?thesis by (simp add: round_double_def)
next
  case False
  define N where "N = nat \<bar>n\<bar>"
  define b where "b = bitlen_nat N"
  from False have Npos: "0 < N" by (simp add: N_def)
  from bitlen_nat_bounds [OF Npos] have lo: "2 ^ (b - 1) \<le> N" and hi: "N < 2 ^ b"
    by (simp_all add: b_def)
  from hi Npos have bpos: "0 < b" by (cases b) simp_all
  from assms have N53: "N < 2 ^ 53" by (simp add: N_def nat_less_iff)
  from lo N53 have pl: "(2::nat) ^ (b - 1) < 2 ^ 53" by linarith
  have "(1::nat) < 2" by simp
  from power_less_imp_less_exp [OF this pl] have b53: "b - 1 < 53" .
  define d where "d = 53 - b"
  from b53 bpos have bd: "b + d = 53" by (simp add: d_def)
  have ax: "\<bar>of_int n :: rat\<bar> = of_nat N" by (simp add: N_def)
  have il: "ilog2 (of_int n) = int b - 1"
    using Npos by (simp add: ilog2_def ax b_def)
  have e: "int b - 1 - 52 = - int d" using bd by simp
  have e': "int b - 53 = - int d" using bd by simp
  have pw: "pow2 (int b - 53) = 1 / 2 ^ d" by (simp add: e' pow2_def)
  have q: "\<bar>of_int n :: rat\<bar> / pow2 (int b - 1 - 52) = of_int (int (N * 2 ^ d))"
    by (simp add: pw ax)
  have nz: "(of_int n :: rat) \<noteq> 0" using False by simp
  have eq: "of_int (int (N * 2 ^ d)) * pow2 (int b - 1 - 52) = (of_nat N :: rat)"
    by (simp add: pw)
  have "(of_nat N :: rat) < of_nat (2 ^ 53)" using N53 by (simp only: of_nat_less_iff)
  moreover have "(of_nat (2 ^ 53) :: rat) < 2 ^ 1024" by simp
  ultimately have lt: "(of_nat N :: rat) < 2 ^ 1024" by (rule less_trans)
  have ov: "of_int (int (N * 2 ^ d)) * pow2 (int b - 1 - 52) < (2::rat) ^ 1024"
    unfolding eq by (rule lt)
  have p3: "- 1074 \<le> int b - 1 - 52" using bpos by simp
  have p4: "of_int (int (N * 2 ^ d)) - 1 / 2 < \<bar>of_int n :: rat\<bar> / pow2 (int b - 1 - 52)"
    unfolding q by simp
  have p5: "\<bar>of_int n :: rat\<bar> / pow2 (int b - 1 - 52) < of_int (int (N * 2 ^ d)) + 1 / 2"
    unfolding q by simp
  have s: "sgn (of_int n :: rat) * of_nat N = of_int n"
    by (simp add: N_def sgn_if)
  from round_double_at [OF nz il p3 p4 p5 ov] show ?thesis
    unfolding eq s .
qed

lemma round_double_numeral:
  "(numeral w :: int) < 2 ^ 53 \<Longrightarrow> round_double (numeral w) = Some (numeral w)"
  using round_double_of_int [of "numeral w"] by simp

lemma round_double_neg_numeral:
  "(numeral w :: int) < 2 ^ 53 \<Longrightarrow> round_double (- numeral w) = Some (- numeral w)"
  using round_double_of_int [of "- numeral w"] by simp

lemma is_double_of_int: "\<bar>n\<bar> < 2 ^ 53 \<Longrightarrow> is_double (of_int n)"
  by (simp add: is_double_def round_double_of_int)

lemma bitlen_nat_small:
  "bitlen_nat 0 = 0"
  "bitlen_nat (Suc 0) = Suc 0"
  "bitlen_nat 8 = 4"
  "bitlen_nat 17 = 5"
  "bitlen_nat 33 = 6"
  by (simp_all add: bitlen_nat.simps)

lemmas round_at_simps = ilog2_def floor_fraction ceiling_fraction bitlen_nat_small pow2_def

text \<open>The roundings on the way from 1 to fahrenheit and back, and the one of \<open>-160/9\<close>.\<close>

lemma round_double_9_5:
  "round_double (9 / 5) = Some (8106479329266893 / 4503599627370496)"
  using round_double_at [of "9 / 5" 0 8106479329266893]
  by (simp add: round_at_simps)

lemma round_double_338:
  "round_double (152221667405122765 / 4503599627370496) =
     Some (2378463553205043 / 70368744177664)"
  using round_double_at [of "152221667405122765 / 4503599627370496" 5 4756927106410086]
  by (simp add: round_at_simps)

lemma round_double_18:
  "round_double (126663739519795 / 70368744177664) = Some (126663739519795 / 70368744177664)"
  using round_double_at [of "126663739519795 / 70368744177664" 0 8106479329266880]
  by (simp add: round_at_simps)

lemma round_double_899:
  "round_double (633318697598975 / 70368744177664) = Some (633318697598975 / 70368744177664)"
  using round_double_at [of "633318697598975 / 70368744177664" 3 5066549580791800]
  by (simp add: round_at_simps)

lemma round_double_099:
  "round_double (633318697598975 / 633318697598976) =
     Some (4503599627370489 / 4503599627370496)"
  using round_double_at [of "633318697598975 / 633318697598976" "- 1" 9007199254740978]
  by (simp add: round_at_simps)

lemma round_double_minus_160_9:
  "round_double (- 160 / 9) = Some (- 2501999792983609 / 140737488355328)"
  using round_double_at [of "- 160 / 9" 4 5003999585967218]
  by (simp add: round_at_simps)

subsection \<open>\<^verbatim>\<open>convert\<close>\<close>

text \<open>
  The rounding of \<^verbatim>\<open>toFixed\<close>: any number within \<open>10^-6\<close> of 212, or of \<open>-160/9\<close>,
  formats as \<^verbatim>\<open>212.0000\<close>, or as \<^verbatim>\<open>-17.7778\<close>.
\<close>

lemma show_nat_2120000: "show_nat 2120000 = ''2120000''"
  by (simp add: show_nat.simps digit_char_def)

lemma show_nat_177778: "show_nat 177778 = ''177778''"
  by (simp add: show_nat.simps digit_char_def)

lemma show_nat_1000000: "show_nat 1000000 = ''1000000''"
  by (simp add: show_nat.simps digit_char_def)

lemma fixed_digits_round:
  assumes "of_int n \<le> y * 10 ^ f + 1 / 2" and "y * 10 ^ f + 1 / 2 < of_int n + 1"
  shows "fixed_digits f y =
     (if f \<noteq> 0 then
        take (length (pad_left (f + 1) (show_nat (nat n))) - f) (pad_left (f + 1) (show_nat (nat n))) @
        ''.'' @
        drop (length (pad_left (f + 1) (show_nat (nat n))) - f) (pad_left (f + 1) (show_nat (nat n)))
      else show_nat (nat n))"
proof -
  from assms have "\<lfloor>y * 10 ^ f + 1 / 2\<rfloor> = n" by (intro floor_unique) simp_all
  then show ?thesis by (simp add: fixed_digits_def Let_def)
qed

lemma toFixed_near_212:
  assumes "\<bar>x - 212\<bar> \<le> 1 / 10 ^ 6"
  shows "toFixed 4 x = Str ''212.0000''"
proof -
  from assms have "\<bar>x - 212\<bar> \<le> 1 / 1000000" by simp
  then have pos: "0 < x" and "\<bar>x\<bar> < 213" by linarith+
  then have small: "\<bar>x\<bar> < 10 ^ 21" by simp
  from assms have a': "\<bar>x - 212\<bar> \<le> 1 / 1000000" by simp
  then have b: "212 - 1 / 1000000 \<le> x" "x \<le> 212 + 1 / 1000000"
    by linarith+
  have ax: "\<bar>x\<bar> = x" using pos by simp
  have lo: "of_int 2120000 \<le> \<bar>x\<bar> * 10 ^ 4 + 1 / 2"
    and hi: "\<bar>x\<bar> * 10 ^ 4 + 1 / 2 < of_int 2120000 + 1"
    unfolding ax using b by simp_all
  from fixed_digits_round [OF lo hi]
  have "fixed_digits 4 \<bar>x\<bar> = ''212.0000''"
    by (simp add: show_nat_2120000 pad_left_def)
  with pos small show ?thesis by (simp add: toFixed_def)
qed

lemma toFixed_near_minus_160_9:
  assumes "\<bar>x - (- 160 / 9)\<bar> \<le> 1 / 10 ^ 6"
  shows "toFixed 4 x = Str ''-17.7778''"
proof -
  from assms have "\<bar>x - (- 160 / 9)\<bar> \<le> 1 / 1000000" by simp
  then have neg: "x < 0" and "\<bar>x\<bar> < 18" by linarith+
  then have small: "\<bar>x\<bar> < 10 ^ 21" by simp
  from assms have a': "\<bar>x - (- 160 / 9)\<bar> \<le> 1 / 1000000" by simp
  then have b: "- 160 / 9 - 1 / 1000000 \<le> x" "x \<le> - 160 / 9 + 1 / 1000000"
    by linarith+
  have ax: "\<bar>x\<bar> = - x" using neg by simp
  have lo: "of_int 177778 \<le> \<bar>x\<bar> * 10 ^ 4 + 1 / 2"
    and hi: "\<bar>x\<bar> * 10 ^ 4 + 1 / 2 < of_int 177778 + 1"
    unfolding ax using b by simp_all
  from fixed_digits_round [OF lo hi]
  have "fixed_digits 4 \<bar>x\<bar> = ''17.7778''"
    by (simp add: show_nat_177778 pad_left_def)
  with neg small show ?thesis by (simp add: toFixed_def)
qed

lemma toFixed_100: "toFixed 4 100 = Str ''100.0000''"
proof -
  have lo: "of_int 1000000 \<le> \<bar>100::rat\<bar> * 10 ^ 4 + 1 / 2"
    and hi: "\<bar>100::rat\<bar> * 10 ^ 4 + 1 / 2 < of_int 1000000 + 1"
    by simp_all
  from fixed_digits_round [OF lo hi]
  have "fixed_digits 4 \<bar>100\<bar> = ''100.0000''"
    by (simp add: show_nat_1000000 pad_left_def)
  then show ?thesis by (simp add: toFixed_def)
qed

lemma get_prop_celsius:
  "get_prop conversions ''celsius'' =
     Own [''fahrenheit'' \<mapsto> (\<lambda>c. do { a \<leftarrow> js_mul c 9; b \<leftarrow> js_div a 5; js_add b 32 })]"
  by (simp add: get_prop_def conversions_def)

lemma get_prop_fahrenheit:
  "get_prop conversions ''fahrenheit'' =
     Own [''celsius'' \<mapsto> (\<lambda>f. do { a \<leftarrow> js_sub f 32; b \<leftarrow> js_mul a 5; js_div b 9 })]"
  by (simp add: get_prop_def conversions_def)

lemmas js_arith = js_mul_def js_div_def js_add_def js_sub_def

lemma convert_100_celsius:
  "convert 100 ''celsius'' ''fahrenheit'' =
     Some [NumberToString 100, Str '' celsius = '', Str ''212.0000'', Str '' fahrenheit'']"
proof -
  have r: "do { a \<leftarrow> js_mul 100 9; b \<leftarrow> js_div a 5; js_add b 32 } = Some 212"
    by (simp add: js_arith round_double_numeral)
  have "toFixed 4 212 = Str ''212.0000''"
    by (rule toFixed_near_212) simp
  then show ?thesis
    unfolding convert_def get_prop_celsius
    by (simp add: get_prop_def converted_text_def r)
qed

lemma convert_0_fahrenheit:
  "convert 0 ''fahrenheit'' ''celsius'' =
     Some [NumberToString 0, Str '' fahrenheit = '', Str ''-17.7778'', Str '' celsius'']"
proof -
  have r: "do { a \<leftarrow> js_sub 0 32; b \<leftarrow> js_mul a 5; js_div b 9 } =
      Some (- 2501999792983609 / 140737488355328)"
    using round_double_minus_160_9 by (simp add: js_arith round_double_neg_numeral)
  have "toFixed 4 (- 2501999792983609 / 140737488355328) = Str ''-17.7778''"
    by (rule toFixed_near_minus_160_9) simp
  then show ?thesis
    unfolding convert_def get_prop_fahrenheit
    by (simp add: get_prop_def converted_text_def r)
qed

lemma number_to_string_100: "number_to_string 100 = Some ''100''"
proof -
  have "show_int 100 = ''100''" by (simp add: show_int_def show_nat.simps digit_char_def)
  then show ?thesis by (simp add: number_to_string_def)
qed

lemma number_to_string_0: "number_to_string 0 = Some ''0''"
proof -
  have "show_int 0 = ''0''" by (simp add: show_int_def show_nat.simps digit_char_def)
  then show ?thesis by (simp add: number_to_string_def)
qed
text \<open>
  C8. \<^verbatim>\<open>convert\<close> of 100 from celsius to fahrenheit formats the result as
  \<^verbatim>\<open>212.0000\<close>, and of 0 from fahrenheit to celsius as \<^verbatim>\<open>-17.7778\<close>.
\<close>

theorem convert_temperature_examples:
  "convert 100 ''celsius'' ''fahrenheit'' =
     Some [NumberToString 100, Str '' celsius = '', Str ''212.0000'', Str '' fahrenheit''] \<and>
   Option.bind (convert 100 ''celsius'' ''fahrenheit'') render =
     Some ''100 celsius = 212.0000 fahrenheit'' \<and>
   convert 0 ''fahrenheit'' ''celsius'' =
     Some [NumberToString 0, Str '' fahrenheit = '', Str ''-17.7778'', Str '' celsius''] \<and>
   Option.bind (convert 0 ''fahrenheit'' ''celsius'') render =
     Some ''0 fahrenheit = -17.7778 celsius''"
  by (simp add: convert_100_celsius convert_0_fahrenheit number_to_string_100 number_to_string_0)
text \<open>
  Where neither unit is the name of an inherited member, a pair with no entry in the
  table gets the text for an unsupported pair.
\<close>

lemma convert_unsupported_pair:
  assumes "fromUnit \<notin> set object_prototype_names" and "toUnit \<notin> set object_prototype_names"
    and "Option.bind (conversions fromUnit) (\<lambda>units. units toUnit) = None"
  shows "convert v fromUnit toUnit = Some (not_supported_text fromUnit toUnit)"
proof (cases "conversions fromUnit")
  case None
  with assms(1) show ?thesis by (simp add: convert_def get_prop_def)
next
  case (Some units)
  with assms(3) have "units toUnit = None" by simp
  with Some assms(2) show ?thesis by (simp add: convert_def get_prop_def)
qed
text \<open>
  C9, at a pair with no entry in the table whose target is the name of an inherited
  member: the table has no entry from celsius to \<^verbatim>\<open>constructor\<close>, yet the handler
  answers with a conversion, not with the text for an unsupported pair. The pair of the
  claim's example, celsius to kilometers, gets that text.
\<close>

theorem convert_inherited_member:
  "Option.bind (conversions ''celsius'') (\<lambda>units. units ''constructor'') = None \<and>
   convert 100 ''celsius'' ''constructor'' =
     Some [NumberToString 100, Str '' celsius = '', Str ''100.0000'', Str '' constructor''] \<and>
   convert 100 ''celsius'' ''constructor'' \<noteq> Some (not_supported_text ''celsius'' ''constructor'') \<and>
   convert 1 ''celsius'' ''kilometers'' = Some (not_supported_text ''celsius'' ''kilometers'')"
proof -
  have a: "Option.bind (conversions ''celsius'') (\<lambda>units. units ''constructor'') = None"
    by (simp add: conversions_def)
  have b: "convert 100 ''celsius'' ''constructor'' =
     Some [NumberToString 100, Str '' celsius = '', Str ''100.0000'', Str '' constructor'']"
    unfolding convert_def get_prop_celsius
    by (simp add: get_prop_def object_prototype_names_def
        call_inherited_def converted_text_def toFixed_100)
  have c: "convert 1 ''celsius'' ''kilometers'' = Some (not_supported_text ''celsius'' ''kilometers'')"
    unfolding convert_def get_prop_celsius
    by (simp add: get_prop_def object_prototype_names_def)
  from a b c show ?thesis by (simp add: not_supported_text_def)
qed

text \<open>
  C10, as the code has it. The table's functions from celsius to fahrenheit and back
  compute \<open>v * 9 / 5 + 32\<close> and \<open>(x - 32) * 5 / 9\<close> in double arithmetic. They are
  inverse to each other, in both orders, wherever no intermediate result is rounded; so
  at \<open>v = 5 * n\<close> and at \<open>x = 9 * n + 32\<close> for every integer \<open>n\<close> of magnitude at most
  \<open>10^14\<close>.
\<close>

theorem temperature_roundtrip_unrounded:
  "\<exists>c2f f2c.
     Option.bind (conversions ''celsius'') (\<lambda>units. units ''fahrenheit'') = Some c2f \<and>
     Option.bind (conversions ''fahrenheit'') (\<lambda>units. units ''celsius'') = Some f2c \<and>
     (\<forall>v. is_double v \<and> is_double (v * 9) \<and> is_double (v * 9 / 5) \<and>
          is_double (v * 9 / 5 + 32) \<longrightarrow>
          c2f v = Some (v * 9 / 5 + 32) \<and> Option.bind (c2f v) f2c = Some v) \<and>
     (\<forall>x. is_double x \<and> is_double (x - 32) \<and> is_double ((x - 32) * 5) \<and>
          is_double ((x - 32) * 5 / 9) \<longrightarrow>
          f2c x = Some ((x - 32) * 5 / 9) \<and> Option.bind (f2c x) c2f = Some x) \<and>
     (\<forall>n. \<bar>n\<bar> \<le> 10 ^ 14 \<longrightarrow>
          Option.bind (c2f (of_int (5 * n))) f2c = Some (of_int (5 * n)) \<and>
          Option.bind (f2c (of_int (9 * n + 32))) c2f = Some (of_int (9 * n + 32)))"
proof -
  define c2f where "c2f = (\<lambda>c. do { a \<leftarrow> js_mul c 9; b \<leftarrow> js_div a 5; js_add b 32 })"
  define f2c where "f2c = (\<lambda>f. do { a \<leftarrow> js_sub f 32; b \<leftarrow> js_mul a 5; js_div b 9 })"
  have t1: "Option.bind (conversions ''celsius'') (\<lambda>units. units ''fahrenheit'') = Some c2f"
    by (simp add: conversions_def c2f_def)
  have t2: "Option.bind (conversions ''fahrenheit'') (\<lambda>units. units ''celsius'') = Some f2c"
    by (simp add: conversions_def f2c_def)
  have forward: "c2f v = Some (v * 9 / 5 + 32) \<and> Option.bind (c2f v) f2c = Some v"
    if d: "is_double v" "is_double (v * 9)" "is_double (v * 9 / 5)" "is_double (v * 9 / 5 + 32)"
    for v
  proof -
    from d have r: "round_double v = Some v" "round_double (v * 9) = Some (v * 9)"
      "round_double (v * 9 / 5) = Some (v * 9 / 5)"
      "round_double (v * 9 / 5 + 32) = Some (v * 9 / 5 + 32)"
      by (simp_all only: is_double_def)
    have nz: "(5::rat) \<noteq> 0" "(9::rat) \<noteq> 0" by simp_all
    have e1: "v * 9 / 5 + 32 - 32 = v * 9 / 5" by simp
    have e2: "v * 9 / 5 * 5 = v * 9" by simp
    have e3: "v * 9 / 9 = v" by simp
    have a1: "js_mul v 9 = Some (v * 9)" unfolding js_mul_def by (rule r(2))
    have a2: "js_div (v * 9) 5 = Some (v * 9 / 5)"
      unfolding js_div_def by (simp only: nz if_False r(3))
    have a3: "js_add (v * 9 / 5) 32 = Some (v * 9 / 5 + 32)" unfolding js_add_def by (rule r(4))
    have b1: "js_sub (v * 9 / 5 + 32) 32 = Some (v * 9 / 5)"
      unfolding js_sub_def e1 by (rule r(3))
    have b2: "js_mul (v * 9 / 5) 5 = Some (v * 9)" unfolding js_mul_def e2 by (rule r(2))
    have b3: "js_div (v * 9) 9 = Some v"
      unfolding js_div_def e3 by (simp only: nz if_False r(1))
    have c: "c2f v = Some (v * 9 / 5 + 32)"
      by (simp only: c2f_def a1 a2 a3 Option.bind.bind_lunit)
    have "f2c (v * 9 / 5 + 32) = Some v"
      by (simp only: f2c_def b1 b2 b3 Option.bind.bind_lunit)
    with c show ?thesis by (simp only: Option.bind.bind_lunit simp_thms)
  qed
  have backward: "f2c x = Some ((x - 32) * 5 / 9) \<and> Option.bind (f2c x) c2f = Some x"
    if d: "is_double x" "is_double (x - 32)" "is_double ((x - 32) * 5)"
      "is_double ((x - 32) * 5 / 9)"
    for x
  proof -
    from d have r: "round_double x = Some x" "round_double (x - 32) = Some (x - 32)"
      "round_double ((x - 32) * 5) = Some ((x - 32) * 5)"
      "round_double ((x - 32) * 5 / 9) = Some ((x - 32) * 5 / 9)"
      by (simp_all only: is_double_def)
    have nz: "(5::rat) \<noteq> 0" "(9::rat) \<noteq> 0" by simp_all
    have e1: "(x - 32) * 5 / 9 * 9 = (x - 32) * 5" by simp
    have e2: "(x - 32) * 5 / 5 = x - 32" by simp
    have e3: "x - 32 + 32 = x" by simp
    have a1: "js_sub x 32 = Some (x - 32)" unfolding js_sub_def by (rule r(2))
    have a2: "js_mul (x - 32) 5 = Some ((x - 32) * 5)" unfolding js_mul_def by (rule r(3))
    have a3: "js_div ((x - 32) * 5) 9 = Some ((x - 32) * 5 / 9)"
      unfolding js_div_def by (simp only: nz if_False r(4))
    have b1: "js_mul ((x - 32) * 5 / 9) 9 = Some ((x - 32) * 5)"
      unfolding js_mul_def e1 by (rule r(3))
    have b2: "js_div ((x - 32) * 5) 5 = Some (x - 32)"
      unfolding js_div_def e2 by (simp only: nz if_False r(2))
    have b3: "js_add (x - 32) 32 = Some x" unfolding js_add_def e3 by (rule r(1))
    have c: "f2c x = Some ((x - 32) * 5 / 9)"
      by (simp only: f2c_def a1 a2 a3 Option.bind.bind_lunit)
    have "c2f ((x - 32) * 5 / 9) = Some x"
      by (simp only: c2f_def b1 b2 b3 Option.bind.bind_lunit)
    with c show ?thesis by (simp only: Option.bind.bind_lunit simp_thms)
  qed
  have ints: "Option.bind (c2f (of_int (5 * n))) f2c = Some (of_int (5 * n)) \<and>
      Option.bind (f2c (of_int (9 * n + 32))) c2f = Some (of_int (9 * n + 32))"
    if n: "\<bar>n\<bar> \<le> 10 ^ 14" for n
  proof -
    from n have b: "\<bar>5 * n\<bar> < 2 ^ 53" "\<bar>45 * n\<bar> < 2 ^ 53" "\<bar>9 * n\<bar> < 2 ^ 53"
      "\<bar>9 * n + 32\<bar> < 2 ^ 53"
      by simp_all
    have v1: "is_double (of_int (5 * n))" by (rule is_double_of_int [OF b(1)])
    have v2: "is_double (of_int (45 * n))" by (rule is_double_of_int [OF b(2)])
    have v3: "is_double (of_int (9 * n))" by (rule is_double_of_int [OF b(3)])
    have v4: "is_double (of_int (9 * n + 32))" by (rule is_double_of_int [OF b(4)])
    have q1: "(of_int (5 * n) :: rat) * 9 = of_int (45 * n)" by simp
    have q2: "(of_int (45 * n) :: rat) / 5 = of_int (9 * n)" by simp
    have q3: "(of_int (9 * n) :: rat) + 32 = of_int (9 * n + 32)" by simp
    have p1: "(of_int (9 * n + 32) :: rat) - 32 = of_int (9 * n)" by simp
    have p2: "(of_int (9 * n) :: rat) * 5 = of_int (45 * n)" by simp
    have p3: "(of_int (45 * n) :: rat) / 9 = of_int (5 * n)" by simp
    from forward [of "of_int (5 * n)"] v1 v2 v3 v4
    have "Option.bind (c2f (of_int (5 * n))) f2c = Some (of_int (5 * n))"
      unfolding q1 q2 q3 by blast
    moreover from backward [of "of_int (9 * n + 32)"] v1 v2 v3 v4
    have "Option.bind (f2c (of_int (9 * n + 32))) c2f = Some (of_int (9 * n + 32))"
      unfolding p1 p2 p3 by blast
    ultimately show ?thesis by simp
  qed
  from t1 t2 forward backward ints show ?thesis by blast
qed

text \<open>The round trips from 100 degrees celsius and from 212 degrees fahrenheit.\<close>

theorem temperature_roundtrip_unrounded_witness:
  "do { units \<leftarrow> conversions ''celsius''; c2f \<leftarrow> units ''fahrenheit''; x \<leftarrow> c2f 100;
        units' \<leftarrow> conversions ''fahrenheit''; f2c \<leftarrow> units' ''celsius''; f2c x } = Some 100 \<and>
   do { units \<leftarrow> conversions ''fahrenheit''; f2c \<leftarrow> units ''celsius''; v \<leftarrow> f2c 212;
        units' \<leftarrow> conversions ''celsius''; c2f \<leftarrow> units' ''fahrenheit''; c2f v } = Some 212"
proof -
  from temperature_roundtrip_unrounded obtain c2f f2c where
    t1: "Option.bind (conversions ''celsius'') (\<lambda>units. units ''fahrenheit'') = Some c2f" and
    t2: "Option.bind (conversions ''fahrenheit'') (\<lambda>units. units ''celsius'') = Some f2c" and
    forward: "\<And>v. is_double v \<and> is_double (v * 9) \<and> is_double (v * 9 / 5) \<and>
          is_double (v * 9 / 5 + 32) \<Longrightarrow>
          c2f v = Some (v * 9 / 5 + 32) \<and> Option.bind (c2f v) f2c = Some v" and
    backward: "\<And>x. is_double x \<and> is_double (x - 32) \<and> is_double ((x - 32) * 5) \<and>
          is_double ((x - 32) * 5 / 9) \<Longrightarrow>
          f2c x = Some ((x - 32) * 5 / 9) \<and> Option.bind (f2c x) c2f = Some x"
    by blast
  have d: "is_double 100" "is_double 900" "is_double 180" "is_double 212"
    by (simp_all add: is_double_def round_double_numeral)
  from forward [of 100] d
  have a: "c2f 100 = Some 212 \<and> f2c 212 = Some 100" by auto
  from backward [of 212] d
  have b: "f2c 212 = Some 100 \<and> c2f 100 = Some 212" by auto
  from t1 obtain cu where cu: "conversions ''celsius'' = Some cu" "cu ''fahrenheit'' = Some c2f"
    by (cases "conversions ''celsius''") simp_all
  from t2 obtain fu where fu: "conversions ''fahrenheit'' = Some fu" "fu ''celsius'' = Some f2c"
    by (cases "conversions ''fahrenheit''") simp_all
  from a b show ?thesis by (simp add: cu fu)
qed

text \<open>
  C10 as stated fails on the doubles the functions compute with: from 1 degree celsius
  the way to fahrenheit rounds twice, and the way back yields
  \<open>4503599627370489 / 2^52\<close>, which prints as \<^verbatim>\<open>0.9999999999999984\<close>, not 1.
\<close>

theorem temperature_roundtrip_rounds:
  "is_double 1 \<and>
   do { units \<leftarrow> conversions ''celsius''; c2f \<leftarrow> units ''fahrenheit''; c2f 1 } =
     Some (2378463553205043 / 70368744177664) \<and>
   do { units \<leftarrow> conversions ''fahrenheit''; f2c \<leftarrow> units ''celsius'';
        f2c (2378463553205043 / 70368744177664) } =
     Some (4503599627370489 / 4503599627370496) \<and>
   (4503599627370489 / 4503599627370496 :: rat) \<noteq> 1"
proof -
  have one: "is_double 1"
    using round_double_of_int [of 1] by (simp add: is_double_def)
  have s1: "js_mul 1 9 = Some 9" by (simp add: js_arith round_double_numeral)
  have s2: "js_div 9 5 = Some (8106479329266893 / 4503599627370496)"
    by (simp add: js_arith round_double_9_5)
  have s3: "js_add (8106479329266893 / 4503599627370496) 32 =
      Some (2378463553205043 / 70368744177664)"
    using round_double_338 by (simp add: js_arith)
  have s4: "js_sub (2378463553205043 / 70368744177664) 32 =
      Some (126663739519795 / 70368744177664)"
    using round_double_18 by (simp add: js_arith)
  have s5: "js_mul (126663739519795 / 70368744177664) 5 =
      Some (633318697598975 / 70368744177664)"
    using round_double_899 by (simp add: js_arith)
  have s6: "js_div (633318697598975 / 70368744177664) 9 =
      Some (4503599627370489 / 4503599627370496)"
    using round_double_099 by (simp add: js_arith)
  have c: "do { units \<leftarrow> conversions ''celsius''; c2f \<leftarrow> units ''fahrenheit''; c2f 1 } =
      Some (2378463553205043 / 70368744177664)"
    by (simp add: conversions_def s1 s2 s3)
  have f: "do { units \<leftarrow> conversions ''fahrenheit''; f2c \<leftarrow> units ''celsius'';
        f2c (2378463553205043 / 70368744177664) } =
      Some (4503599627370489 / 4503599627370496)"
    by (simp add: conversions_def s4 s5 s6)
  from one c f show ?thesis by simp
qed

section \<open>Session routing\<close>

subsection \<open>Identifiers and the invariant of the store\<close>

lemma uuid_shape_length: "uuid_shape i s \<Longrightarrow> i + length s = 36"
proof (induction s arbitrary: i)
  case Nil
  then show ?case by simp
next
  case (Cons c cs)
  from Cons.prems have "uuid_shape (Suc i) cs" by simp
  from Cons.IH [OF this] show ?case by simp
qed

lemma is_uuid_length: "is_uuid s \<Longrightarrow> length s = 36"
  using uuid_shape_length [of 0 s] by (simp add: is_uuid_def)

lemma is_uuid_nonempty: "is_uuid s \<Longrightarrow> s \<noteq> []"
  using is_uuid_length [of s] by auto

lemma is_uuid_not_inherited: "is_uuid s \<Longrightarrow> s \<notin> set object_prototype_names"
  using is_uuid_length [of s] by (auto simp: object_prototype_names_def)

lemma is_uuid_not_proto: "is_uuid s \<Longrightarrow> s \<noteq> ''__proto__''"
  using is_uuid_length [of s] by auto

lemma is_uuid_example: "is_uuid example_uuid"
  by (simp add: is_uuid_def example_uuid_def is_hex_def is_digit_def)

lemma constructed_sdk_fire: "constructed (sdk_fire uuid t e s) = constructed s"
  by (cases e) (simp_all add: onsessioninitialized_def onclose_def split: option.splits)

lemma constructed_sdk_handle: "constructed (sdk_handle uuid t events s) = constructed s"
  unfolding sdk_handle_def
  by (induction events arbitrary: s) (simp_all add: constructed_sdk_fire)

lemma wf_server_init: "wf_server init_server"
  by (simp add: wf_server_def init_server_def)

lemma wf_sdk_fire:
  assumes "wf_server s" "is_uuid uuid" "t < constructed s"
  shows "wf_server (sdk_fire uuid t e s)"
proof (cases e)
  case SessionInitialized
  with assms show ?thesis
    by (auto simp: wf_server_def onsessioninitialized_def set_prop_def split: if_splits)
next
  case Closed
  with assms show ?thesis
    by (auto simp: wf_server_def onclose_def delete_prop_def split: option.splits if_splits)
qed

lemma wf_sdk_handle:
  "wf_server s \<Longrightarrow> is_uuid uuid \<Longrightarrow> t < constructed s \<Longrightarrow> wf_server (sdk_handle uuid t events s)"
  unfolding sdk_handle_def
proof (induction events arbitrary: s)
  case Nil
  then show ?case by simp
next
  case (Cons e es)
  have "wf_server (sdk_fire uuid t e s)" using Cons.prems by (rule wf_sdk_fire)
  moreover have "t < constructed (sdk_fire uuid t e s)"
    using Cons.prems by (simp add: constructed_sdk_fire)
  ultimately show ?case using Cons.IH Cons.prems(2) by simp
qed

lemma wf_server_grow: "wf_server s \<Longrightarrow> wf_server (s\<lparr>constructed := Suc (constructed s)\<rparr>)"
  by (auto simp: wf_server_def less_Suc_eq)

lemma session_member_bound:
  "wf_server s \<Longrightarrow> transports s sid = Some t \<Longrightarrow> session_member s (Some sid) = Own t"
  using is_uuid_nonempty [of sid] by (auto simp: wf_server_def get_prop_def)

lemma session_member_truthy_id:
  "truthy (session_member s h) \<Longrightarrow> truthy_id h"
  by (cases h) (auto split: if_splits)

lemma session_member_own:
  "session_member s h = Own t \<Longrightarrow> \<exists>sid. h = Some sid \<and> sid \<noteq> [] \<and> transports s sid = Some t"
  by (cases h) (auto simp: get_prop_def split: if_splits option.splits)

lemma post_mcp_own:
  "session_member s (mcp_session_id req) = Own t \<Longrightarrow>
   post_mcp uuid events req s = (Delegated t (Some (body req)), sdk_handle uuid t events s)"
  by (simp add: post_mcp_def)

lemma post_mcp_inherited:
  "session_member s (mcp_session_id req) = Inherited m \<Longrightarrow>
   post_mcp uuid events req s = (UncaughtTypeError, s)"
  by (simp add: post_mcp_def)

lemma post_mcp_undefined:
  "session_member s (mcp_session_id req) = Undefined \<Longrightarrow>
   post_mcp uuid events req s =
     (if \<not> truthy_id (mcp_session_id req) \<and> isInitializeRequest (body req) then
        (Delegated (constructed s) (Some (body req)),
         sdk_handle uuid (constructed s) events (s\<lparr>constructed := Suc (constructed s)\<rparr>))
      else (StatusJson 400 (- 32000) ''Bad Request: No valid session ID provided'', s))"
  by (simp add: post_mcp_def Let_def)

lemma handleSessionRequest_own:
  "session_member s (mcp_session_id req) = Own t \<Longrightarrow>
   handleSessionRequest uuid events req s = (Delegated t None, sdk_handle uuid t events s)"
  using session_member_truthy_id [of s "mcp_session_id req"]
  by (simp add: handleSessionRequest_def)

lemma handleSessionRequest_inherited:
  "session_member s (mcp_session_id req) = Inherited m \<Longrightarrow>
   handleSessionRequest uuid events req s = (UncaughtTypeError, s)"
  using session_member_truthy_id [of s "mcp_session_id req"]
  by (simp add: handleSessionRequest_def)

lemma handleSessionRequest_undefined:
  "session_member s (mcp_session_id req) = Undefined \<Longrightarrow>
   handleSessionRequest uuid events req s = (StatusText 400 ''Invalid or missing session ID'', s)"
  by (simp add: handleSessionRequest_def)

lemma wf_post_mcp:
  assumes "wf_server s" "is_uuid uuid"
  shows "wf_server (snd (post_mcp uuid events req s))"
proof (cases "session_member s (mcp_session_id req)")
  case (Own t)
  with assms session_member_own [OF Own] have "t < constructed s"
    by (auto simp: wf_server_def)
  with assms show ?thesis by (simp add: post_mcp_own [OF Own] wf_sdk_handle)
next
  case (Inherited m)
  with assms show ?thesis by (simp add: post_mcp_inherited)
next
  case Undefined
  with assms wf_server_grow [of s] show ?thesis
    by (simp add: post_mcp_undefined wf_sdk_handle)
qed

lemma wf_handleSessionRequest:
  assumes "wf_server s" "is_uuid uuid"
  shows "wf_server (snd (handleSessionRequest uuid events req s))"
proof (cases "session_member s (mcp_session_id req)")
  case (Own t)
  with assms session_member_own [OF Own] have "t < constructed s"
    by (auto simp: wf_server_def)
  with assms show ?thesis by (simp add: handleSessionRequest_own [OF Own] wf_sdk_handle)
next
  case (Inherited m)
  with assms show ?thesis by (simp add: handleSessionRequest_inherited)
next
  case Undefined
  with assms show ?thesis by (simp add: handleSessionRequest_undefined)
qed

subsection \<open>POST\<close>

text \<open>
  C1. On a POST whose header names an identifier bound in the store, the body is handed
  to the transport bound there and no transport is constructed. On a POST with no header
  whose body is an initialization request, a transport is constructed that no binding
  of the store refers to, the body is handed to it, and when the SDK transport then
  initialises the session, the store binds the identifier that \<^verbatim>\<open>randomUUID\<close> returned
  to the new transport.
\<close>

theorem post_mcp_continue_and_initiate:
  assumes "wf_server s" and "is_uuid uuid"
  shows
   "(mcp_session_id req = Some sid \<and> transports s sid = Some t \<longrightarrow>
       fst (post_mcp uuid events req s) = Delegated t (Some (body req)) \<and>
       constructed (snd (post_mcp uuid events req s)) = constructed s) \<and>
    (mcp_session_id req = None \<and> isInitializeRequest (body req) \<longrightarrow>
       fst (post_mcp uuid events req s) = Delegated (constructed s) (Some (body req)) \<and>
       constructed (snd (post_mcp uuid events req s)) = Suc (constructed s) \<and>
       (\<forall>k. transports s k \<noteq> Some (constructed s)) \<and>
       (events = [SessionInitialized] \<longrightarrow>
          transports (snd (post_mcp uuid events req s)) = (transports s)(uuid \<mapsto> constructed s) \<and>
          session_of (snd (post_mcp uuid events req s)) (constructed s) = Some uuid))"
proof (intro conjI impI)
  assume a: "mcp_session_id req = Some sid \<and> transports s sid = Some t"
  then have "session_member s (Some sid) = Own t"
    using session_member_bound [OF assms(1), of sid t] by simp
  with a have m: "session_member s (mcp_session_id req) = Own t" by simp
  show "fst (post_mcp uuid events req s) = Delegated t (Some (body req))"
    by (simp add: post_mcp_own [OF m])
  show "constructed (snd (post_mcp uuid events req s)) = constructed s"
    by (simp add: post_mcp_own [OF m] constructed_sdk_handle)
next
  assume a: "mcp_session_id req = None \<and> isInitializeRequest (body req)"
  then have u: "session_member s (mcp_session_id req) = Undefined" by simp
  from a show "fst (post_mcp uuid events req s) = Delegated (constructed s) (Some (body req))"
    by (simp add: post_mcp_undefined [OF u])
  from a show "constructed (snd (post_mcp uuid events req s)) = Suc (constructed s)"
    by (simp add: post_mcp_undefined [OF u] constructed_sdk_handle)
  from assms(1) show "\<forall>k. transports s k \<noteq> Some (constructed s)"
    by (auto simp: wf_server_def)
  assume e: "events = [SessionInitialized]"
  from a e is_uuid_not_proto [OF assms(2)]
  show "transports (snd (post_mcp uuid events req s)) = (transports s)(uuid \<mapsto> constructed s)"
    by (simp add: post_mcp_undefined [OF u] sdk_handle_def onsessioninitialized_def set_prop_def)
  from a e show "session_of (snd (post_mcp uuid events req s)) (constructed s) = Some uuid"
    by (simp add: post_mcp_undefined [OF u] sdk_handle_def onsessioninitialized_def)
qed


theorem post_mcp_continue_and_initiate_witness:
  "fst (post_mcp example_uuid [SessionInitialized] initialize_call init_server) =
     Delegated 0 (Some (InitializeRequest ''initialize'')) \<and>
   transports one_session example_uuid = Some 0 \<and>
   fst (post_mcp example_uuid []
          \<lparr>mcp_session_id = Some example_uuid, body = OtherMessage ''tools/list''\<rparr> one_session) =
     Delegated 0 (Some (OtherMessage ''tools/list''))"
proof -
  note u = is_uuid_example
  have i: "mcp_session_id initialize_call = None \<and> isInitializeRequest (body initialize_call)"
    by (simp add: initialize_call_def)
  have c0: "constructed init_server = 0" "transports init_server = Map.empty"
    by (simp_all add: init_server_def)
  from post_mcp_continue_and_initiate [OF wf_server_init u,
      where req = initialize_call and events = "[SessionInitialized]"] i c0
  have a: "fst (post_mcp example_uuid [SessionInitialized] initialize_call init_server) =
             Delegated 0 (Some (InitializeRequest ''initialize''))"
    and b: "transports one_session example_uuid = Some 0"
    by (simp_all add: one_session_def initialize_call_def)
  have wf1: "wf_server one_session"
    unfolding one_session_def using wf_server_init u by (rule wf_post_mcp)
  from post_mcp_continue_and_initiate [OF wf1 u,
      where req = "\<lparr>mcp_session_id = Some example_uuid, body = OtherMessage ''tools/list''\<rparr>"
        and sid = example_uuid and t = 0 and events = "[]"] b
  have "fst (post_mcp example_uuid []
          \<lparr>mcp_session_id = Some example_uuid, body = OtherMessage ''tools/list''\<rparr> one_session) =
     Delegated 0 (Some (OtherMessage ''tools/list''))"
    by simp
  with a b show ?thesis by simp
qed

text \<open>
  C2, as the code has it. A POST is answered with the error envelope of code -32000 and
  message \<^verbatim>\<open>Bad Request: No valid session ID provided\<close>, no transport is handed the
  request and the server state is unchanged, when the header carries a non-empty
  identifier that is not bound in the store and is not the name of an inherited member,
  or when the header is absent or empty and the body is not an initialization request.
\<close>

theorem post_mcp_rejects:
  assumes "(mcp_session_id req = Some sid \<and> sid \<noteq> [] \<and> sid \<notin> set object_prototype_names \<and>
              transports s sid = None) \<or>
           ((mcp_session_id req = None \<or> mcp_session_id req = Some []) \<and>
              \<not> isInitializeRequest (body req))"
  shows "post_mcp uuid events req s =
           (StatusJson 400 (- 32000) ''Bad Request: No valid session ID provided'', s)"
  using assms
proof (elim disjE conjE)
  assume h: "mcp_session_id req = Some sid" "sid \<noteq> []" "sid \<notin> set object_prototype_names"
    "transports s sid = None"
  then have u: "session_member s (mcp_session_id req) = Undefined"
    by (simp add: get_prop_def)
  from h show ?thesis by (simp add: post_mcp_undefined [OF u])
next
  assume h: "\<not> isInitializeRequest (body req)" "mcp_session_id req = None"
  then have u: "session_member s (mcp_session_id req) = Undefined" by simp
  from h show ?thesis by (simp add: post_mcp_undefined [OF u])
next
  assume h: "\<not> isInitializeRequest (body req)" "mcp_session_id req = Some []"
  then have u: "session_member s (mcp_session_id req) = Undefined" by simp
  from h show ?thesis by (simp add: post_mcp_undefined [OF u])
qed

text \<open>The rejection at an unknown identifier, and at a call with no header and another body.\<close>

theorem post_mcp_rejects_witness:
  "post_mcp example_uuid [SessionInitialized]
     \<lparr>mcp_session_id = Some example_uuid, body = InitializeRequest ''initialize''\<rparr> init_server =
     (StatusJson 400 (- 32000) ''Bad Request: No valid session ID provided'', init_server) \<and>
   post_mcp example_uuid [SessionInitialized]
     \<lparr>mcp_session_id = None, body = OtherMessage ''tools/list''\<rparr> one_session =
     (StatusJson 400 (- 32000) ''Bad Request: No valid session ID provided'', one_session)"
proof -
  have n: "example_uuid \<noteq> []" "example_uuid \<notin> set object_prototype_names"
    using is_uuid_example by (simp_all add: is_uuid_nonempty is_uuid_not_inherited)
  have e: "transports init_server example_uuid = None" by (simp add: init_server_def)
  from n e post_mcp_rejects [where req = "\<lparr>mcp_session_id = Some example_uuid,
      body = InitializeRequest ''initialize''\<rparr>" and sid = example_uuid and s = init_server
      and uuid = example_uuid and events = "[SessionInitialized]"]
  have a: "post_mcp example_uuid [SessionInitialized]
     \<lparr>mcp_session_id = Some example_uuid, body = InitializeRequest ''initialize''\<rparr> init_server =
     (StatusJson 400 (- 32000) ''Bad Request: No valid session ID provided'', init_server)"
    by simp
  from post_mcp_rejects [where req = "\<lparr>mcp_session_id = None, body = OtherMessage ''tools/list''\<rparr>"
      and s = one_session and uuid = example_uuid and events = "[SessionInitialized]"]
  have b: "post_mcp example_uuid [SessionInitialized]
     \<lparr>mcp_session_id = None, body = OtherMessage ''tools/list''\<rparr> one_session =
     (StatusJson 400 (- 32000) ''Bad Request: No valid session ID provided'', one_session)"
    by simp
  from a b show ?thesis by simp
qed

text \<open>
  C2 as stated fails where the header is present and empty: the identifier is bound to
  nothing, yet with an initialization request as body the route constructs a transport,
  hands it the request, and a session is registered.
\<close>

theorem post_mcp_empty_header_initiates:
  "mcp_session_id empty_header_call = Some [] \<and>
   transports init_server [] = None \<and>
   fst (post_mcp example_uuid [SessionInitialized] empty_header_call init_server) =
     Delegated 0 (Some (InitializeRequest ''initialize'')) \<and>
   transports (snd (post_mcp example_uuid [SessionInitialized] empty_header_call init_server))
     example_uuid = Some 0 \<and>
   post_mcp example_uuid [SessionInitialized] empty_header_call init_server \<noteq>
     (StatusJson 400 (- 32000) ''Bad Request: No valid session ID provided'', init_server)"
proof -
  have u: "session_member init_server (mcp_session_id empty_header_call) = Undefined"
    by (simp add: empty_header_call_def)
  have p: "example_uuid \<noteq> ''__proto__''" using is_uuid_example by (rule is_uuid_not_proto)
  show ?thesis
    unfolding post_mcp_undefined [OF u, of example_uuid "[SessionInitialized]"]
    using p
    by (simp add: empty_header_call_def init_server_def sdk_handle_def
        onsessioninitialized_def set_prop_def)
qed

subsection \<open>Registration\<close>

lemma transports_onsessioninitialized:
  "sid \<noteq> ''__proto__'' \<Longrightarrow>
   transports (onsessioninitialized t sid s) = (transports s)(sid \<mapsto> t)"
  by (simp add: onsessioninitialized_def set_prop_def)

text \<open>
  C3, as the code has it. Registration makes no check and reports no conflict: it binds
  the identifier to the transport, whatever was bound there, and changes no other
  binding. The store being a map, an identifier has at most one transport at any time;
  where the identifier was not bound before, every binding of the store is kept.
\<close>

theorem registration_binds_unconditionally:
  assumes "is_uuid sid"
  shows "transports (onsessioninitialized t sid s) sid = Some t \<and>
         (\<forall>k. k \<noteq> sid \<longrightarrow> transports (onsessioninitialized t sid s) k = transports s k) \<and>
         (transports s sid = None \<longrightarrow>
            (\<forall>k h. transports s k = Some h \<longrightarrow>
               transports (onsessioninitialized t sid s) k = Some h))"
proof -
  from assms have "sid \<noteq> ''__proto__''" by (rule is_uuid_not_proto)
  then have "transports (onsessioninitialized t sid s) = (transports s)(sid \<mapsto> t)"
    by (rule transports_onsessioninitialized)
  then show ?thesis by auto
qed

text \<open>A registration in the empty store.\<close>

theorem registration_binds_unconditionally_witness:
  "transports (onsessioninitialized 0 example_uuid init_server) example_uuid = Some 0 \<and>
   transports (onsessioninitialized 0 example_uuid init_server) ''abc'' = None"
proof -
  have e: "transports init_server = Map.empty" by (simp add: init_server_def)
  have n: "''abc'' \<noteq> example_uuid" by (simp add: example_uuid_def)
  from registration_binds_unconditionally [OF is_uuid_example, of 0 init_server] e n
  show ?thesis by simp
qed

text \<open>
  C3 as stated fails: a second registration under a bound identifier replaces the
  transport bound there, also through the route, when \<^verbatim>\<open>randomUUID\<close> returns an
  identifier a second time.
\<close>

theorem registration_rebinds_silently:
  "transports (onsessioninitialized 0 example_uuid init_server) example_uuid = Some 0 \<and>
   transports (onsessioninitialized 1 example_uuid
      (onsessioninitialized 0 example_uuid init_server)) example_uuid = Some 1 \<and>
   transports one_session example_uuid = Some 0 \<and>
   fst (post_mcp example_uuid [SessionInitialized] initialize_call one_session) =
     Delegated 1 (Some (InitializeRequest ''initialize'')) \<and>
   transports (snd (post_mcp example_uuid [SessionInitialized] initialize_call one_session))
     example_uuid = Some 1"
proof -
  have p: "example_uuid \<noteq> ''__proto__''" using is_uuid_example by (rule is_uuid_not_proto)
  have u0: "session_member init_server (mcp_session_id initialize_call) = Undefined"
    by (simp add: initialize_call_def)
  have u1: "session_member one_session (mcp_session_id initialize_call) = Undefined"
    by (simp add: initialize_call_def)
  have s1: "one_session =
     \<lparr>transports = [example_uuid \<mapsto> 0], session_of = [0 \<mapsto> example_uuid], constructed = 1\<rparr>"
    unfolding one_session_def post_mcp_undefined [OF u0, of example_uuid "[SessionInitialized]"]
    using p
    by (simp add: initialize_call_def init_server_def sdk_handle_def onsessioninitialized_def
        set_prop_def)
  have a: "transports (onsessioninitialized 0 example_uuid init_server) example_uuid = Some 0"
    by (simp add: transports_onsessioninitialized [OF p])
  have b: "transports (onsessioninitialized 1 example_uuid
      (onsessioninitialized 0 example_uuid init_server)) example_uuid = Some 1"
    by (simp add: transports_onsessioninitialized [OF p])
  have c: "transports one_session example_uuid = Some 0" by (simp add: s1)
  have d: "post_mcp example_uuid [SessionInitialized] initialize_call one_session =
     (Delegated 1 (Some (InitializeRequest ''initialize'')),
      \<lparr>transports = [example_uuid \<mapsto> 1],
         session_of = [0 \<mapsto> example_uuid, 1 \<mapsto> example_uuid], constructed = 2\<rparr>)"
    unfolding post_mcp_undefined [OF u1, of example_uuid "[SessionInitialized]"]
    using p
    by (simp add: s1 initialize_call_def sdk_handle_def onsessioninitialized_def set_prop_def)
  from a b c d show ?thesis by simp
qed

subsection \<open>Closing\<close>

lemma transports_onclose:
  "session_of s t = Some sid \<Longrightarrow> sid \<noteq> [] \<Longrightarrow>
   onclose t s = s\<lparr>transports := (transports s)(sid := None)\<rparr>"
  by (simp add: onclose_def delete_prop_def)

lemma delete_prop_absent: "obj k = None \<Longrightarrow> delete_prop obj k = obj"
  by (auto simp: delete_prop_def)

lemma delete_prop_twice: "delete_prop (delete_prop obj k) k = delete_prop obj k"
  by (simp add: delete_prop_def)

text \<open>
  C4. When a transport with an identifier closes, the identifier is removed from the
  store and no other binding changes; closing again changes nothing, as does removing an
  identifier that is not bound. A GET or DELETE with the closed identifier is answered
  with status 400 and \<^verbatim>\<open>Invalid or missing session ID\<close>, the answer the same call gets
  in any state in which the identifier is not bound.
\<close>

theorem close_removes_session_once:
  assumes "session_of s t = Some sid" and "is_uuid sid"
  shows "transports (onclose t s) sid = None \<and>
         (\<forall>k. k \<noteq> sid \<longrightarrow> transports (onclose t s) k = transports s k) \<and>
         onclose t (onclose t s) = onclose t s \<and>
         (transports s sid = None \<longrightarrow> onclose t s = s) \<and>
         delete_prop (delete_prop (transports s) sid) sid = delete_prop (transports s) sid \<and>
         fst (handleSessionRequest uuid events \<lparr>mcp_session_id = Some sid, body = b\<rparr> (onclose t s)) =
           StatusText 400 ''Invalid or missing session ID'' \<and>
         (\<forall>s0. transports s0 sid = None \<longrightarrow>
            fst (handleSessionRequest uuid events \<lparr>mcp_session_id = Some sid, body = b\<rparr> s0) =
            fst (handleSessionRequest uuid events \<lparr>mcp_session_id = Some sid, body = b\<rparr>
                   (onclose t s)))"
proof -
  from assms(2) have ne: "sid \<noteq> []" and ni: "sid \<notin> set object_prototype_names"
    by (simp_all add: is_uuid_nonempty is_uuid_not_inherited)
  note c = transports_onclose [OF assms(1) ne]
  have r: "transports (onclose t s) sid = None" by (simp add: c)
  have o: "\<forall>k. k \<noteq> sid \<longrightarrow> transports (onclose t s) k = transports s k" by (simp add: c)
  have so: "session_of (onclose t s) t = Some sid" using assms(1) by (simp add: c)
  have i: "onclose t (onclose t s) = onclose t s"
    by (simp add: transports_onclose [OF so ne]) (simp add: c)
  have a: "transports s sid = None \<longrightarrow> onclose t s = s"
    by (simp add: c fun_upd_idem)
  have d: "delete_prop (delete_prop (transports s) sid) sid = delete_prop (transports s) sid"
    by (rule delete_prop_twice)
  have unbound: "fst (handleSessionRequest uuid events \<lparr>mcp_session_id = Some sid, body = b\<rparr> s') =
      StatusText 400 ''Invalid or missing session ID''" if "transports s' sid = None" for s'
  proof -
    from that ne ni
    have "session_member s' (mcp_session_id \<lparr>mcp_session_id = Some sid, body = b\<rparr>) = Undefined"
      by (simp add: get_prop_def)
    then show ?thesis by (simp add: handleSessionRequest_undefined)
  qed
  from r o i a d unbound [OF r] unbound show ?thesis by simp
qed

text \<open>Closing the transport of the one registered session, twice.\<close>

theorem close_removes_session_once_witness:
  "transports (onclose 0 one_session) example_uuid = None \<and>
   onclose 0 (onclose 0 one_session) = onclose 0 one_session \<and>
   fst (handleSessionRequest example_uuid []
          \<lparr>mcp_session_id = Some example_uuid, body = OtherMessage []\<rparr> (onclose 0 one_session)) =
     StatusText 400 ''Invalid or missing session ID'' \<and>
   fst (handleSessionRequest example_uuid []
          \<lparr>mcp_session_id = Some example_uuid, body = OtherMessage []\<rparr> init_server) =
     StatusText 400 ''Invalid or missing session ID''"
proof -
  have p: "example_uuid \<noteq> ''__proto__''" using is_uuid_example by (rule is_uuid_not_proto)
  have u0: "session_member init_server (mcp_session_id initialize_call) = Undefined"
    by (simp add: initialize_call_def)
  have s1: "one_session =
     \<lparr>transports = [example_uuid \<mapsto> 0], session_of = [0 \<mapsto> example_uuid], constructed = 1\<rparr>"
    unfolding one_session_def post_mcp_undefined [OF u0, of example_uuid "[SessionInitialized]"]
    using p
    by (simp add: initialize_call_def init_server_def sdk_handle_def onsessioninitialized_def
        set_prop_def)
  have so: "session_of one_session 0 = Some example_uuid" by (simp add: s1)
  have e: "transports init_server example_uuid = None" by (simp add: init_server_def)
  from close_removes_session_once [OF so is_uuid_example, of example_uuid "[]" "OtherMessage []"] e
  show ?thesis by simp
qed

subsection \<open>GET and DELETE\<close>

text \<open>
  Where the header does not carry the name of an inherited member, the route answers
  with status 400 exactly when the header is absent or its identifier is not bound.
\<close>

lemma handleSessionRequest_rejects_iff:
  assumes "wf_server s" and "\<forall>sid. mcp_session_id req = Some sid \<longrightarrow> sid \<notin> set object_prototype_names"
  shows "(handleSessionRequest uuid events req s =
            (StatusText 400 ''Invalid or missing session ID'', s)) =
         (mcp_session_id req = None \<or> (\<exists>sid. mcp_session_id req = Some sid \<and> transports s sid = None))"
proof (cases "mcp_session_id req")
  case None
  then have "session_member s (mcp_session_id req) = Undefined" by simp
  with None show ?thesis by (simp add: handleSessionRequest_undefined)
next
  case (Some sid)
  show ?thesis
  proof (cases "transports s sid")
    case None
    have "session_member s (mcp_session_id req) = Undefined"
      using Some None assms(2) by (simp add: get_prop_def)
    with Some None show ?thesis by (simp add: handleSessionRequest_undefined)
  next
    case (Some t)
    with \<open>mcp_session_id req = Some sid\<close> assms(1)
    have "session_member s (mcp_session_id req) = Own t"
      using session_member_bound [of s sid t] by simp
    with Some \<open>mcp_session_id req = Some sid\<close> show ?thesis
      by (simp add: handleSessionRequest_own)
  qed
qed

text \<open>
  C5, at an identifier that is the name of an inherited member: \<^verbatim>\<open>constructor\<close> is
  bound to nothing in the store, yet the route does not answer with status 400; it calls
  \<^verbatim>\<open>handleRequest\<close> on the inherited member, which raises a TypeError. Another
  unbound identifier gets the status 400.
\<close>

theorem session_request_inherited_name:
  "transports init_server ''constructor'' = None \<and>
   handleSessionRequest example_uuid [] unknown_name_call init_server =
     (UncaughtTypeError, init_server) \<and>
   fst (handleSessionRequest example_uuid [] unknown_name_call init_server) \<noteq>
     StatusText 400 ''Invalid or missing session ID'' \<and>
   fst (handleSessionRequest example_uuid []
          \<lparr>mcp_session_id = Some ''no-such-session'', body = OtherMessage []\<rparr> init_server) =
     StatusText 400 ''Invalid or missing session ID''"
proof -
  have m: "session_member init_server (mcp_session_id unknown_name_call) = Inherited ''constructor''"
    by (simp add: unknown_name_call_def init_server_def get_prop_def object_prototype_names_def)
  have n: "session_member init_server
      (mcp_session_id \<lparr>mcp_session_id = Some ''no-such-session'', body = OtherMessage []\<rparr>) =
      Undefined"
    by (simp add: init_server_def get_prop_def object_prototype_names_def)
  have e: "transports init_server ''constructor'' = None" by (simp add: init_server_def)
  from e show ?thesis
    by (simp add: handleSessionRequest_inherited [OF m] handleSessionRequest_undefined [OF n])
qed

text \<open>The answer to the call with \<^verbatim>\<open>constructor\<close>, in the empty store.\<close>

theorem session_request_inherited_name_witness:
  "fst (handleSessionRequest example_uuid [] unknown_name_call init_server) = UncaughtTypeError \<and>
   snd (handleSessionRequest example_uuid [] unknown_name_call init_server) = init_server"
  using session_request_inherited_name by simp

end
